theory Spec2Isabelle
  imports Complex_Main "HOL-Library.Sublist"
begin

section \<open>Python values, errors and containers\<close>

text \<open>
  The agent of \<^verbatim>\<open>parlai/agents/transformer/transformer.py\<close> is a Python object whose
  methods mutate its attributes and call into the tensor library, the dictionary agent and
  the padding utilities. Every method below is a function from the agent state (and the
  arguments) to either an error (a raised exception) or a result with the new state.
\<close>

datatype error =
    RuntimeError string
  | NameError string
  | AttributeError string
  | KeyError string
  | IndexError
  | ValueError
  | OverflowError
  | TypeError
  | BdbQuit

text \<open>
  Values stored in option dictionaries, observations and reports. The type \<open>'f\<close> stands
  for Python's \<^verbatim>\<open>float\<close>; it is kept abstract, with \<open>0\<close> for \<^verbatim>\<open>0.0\<close>.
\<close>

datatype 'f pyval =
    PNone
  | PBool bool
  | PInt int
  | PFloat 'f
  | PStr string
  | PList "'f pyval list"

text \<open>Python truthiness (\<^verbatim>\<open>bool(x)\<close>), as used by \<^verbatim>\<open>if x\<close>, \<^verbatim>\<open>x or y\<close>.\<close>

fun truthy :: "('f::zero) pyval \<Rightarrow> bool" where
  "truthy PNone = False"
| "truthy (PBool b) = b"
| "truthy (PInt i) = (i \<noteq> 0)"
| "truthy (PFloat x) = (x \<noteq> 0)"
| "truthy (PStr s) = (s \<noteq> [])"
| "truthy (PList xs) = (xs \<noteq> [])"

definition py_or :: "('f::zero) pyval \<Rightarrow> 'f pyval \<Rightarrow> 'f pyval" where
  "py_or x y = (if truthy x then x else y)"

text \<open>List indexing and item assignment with Python's negative indices and IndexError.\<close>

definition py_index :: "'a list \<Rightarrow> int \<Rightarrow> nat option" where
  "py_index xs i =
     (if 0 \<le> i \<and> i < int (length xs) then Some (nat i)
      else if i < 0 \<and> - int (length xs) \<le> i then Some (nat (int (length xs) + i))
      else None)"

definition py_getitem :: "'a list \<Rightarrow> int \<Rightarrow> error + 'a" where
  "py_getitem xs i = (case py_index xs i of None \<Rightarrow> Inl IndexError | Some j \<Rightarrow> Inr (xs ! j))"

definition py_setitem :: "'a list \<Rightarrow> int \<Rightarrow> 'a \<Rightarrow> error + 'a list" where
  "py_setitem xs i v =
     (case py_index xs i of None \<Rightarrow> Inl IndexError | Some j \<Rightarrow> Inr (xs[j := v]))"

section \<open>The agent state\<close>

text \<open>\<^verbatim>\<open>self.metrics\<close>: the four keys set in \<^verbatim>\<open>__init__\<close>.\<close>

record 'f metrics =
  loss :: 'f
  num_tokens :: int
  correct_tokens :: int
  total_skipped_batches :: int

text \<open>
  The attributes of \<^verbatim>\<open>TransformerAgent\<close> that the methods below read or write.
  \<open>'m\<close> is the state of the neural model, \<open>'o\<close> that of the optimizer; \<open>model\<close> and
  \<open>optimizer\<close> are \<open>None\<close> when the attribute does not exist (\<^verbatim>\<open>hasattr\<close> is false):
  the optimizer is only created when the datatype option contains \<^verbatim>\<open>train\<close>.
  \<open>param_updates\<close> is a ghost counter of the calls of \<^verbatim>\<open>self.optimizer.step()\<close>.
\<close>

record ('f, 'm, 'o) agent =
  opt :: "string \<rightharpoonup> 'f pyval"
  agent_id :: string
  truncate_len :: "nat option"
  metrics :: "'f metrics"
  history :: "string \<rightharpoonup> 'f pyval"
  batch_idx :: int
  answers :: "'f pyval list"
  observation :: "(string \<rightharpoonup> 'f pyval) option"
  use_person_tokens :: "'f pyval"
  use_cuda :: bool
  buffer_initialized :: bool
  rank :: bool
  report_freq :: 'f
  START_IDX :: int
  END_IDX :: int
  NULL_IDX :: int
  model :: "'m option"
  optimizer :: "'o option"
  clip :: "'f pyval"
  param_updates :: nat

text \<open>
  The dictionary agent (\<^verbatim>\<open>parlai.core.dict.DictionaryAgent\<close>) is not part of the sources
  at hand; the operations the agent uses are parameters: \<^verbatim>\<open>txt2vec\<close>,
  \<^verbatim>\<open>vec2txt\<close>, \<^verbatim>\<open>self.dict[i]\<close> for an integer \<open>i\<close>, and \<^verbatim>\<open>len(self.dict)\<close>.
\<close>

record dictionary =
  txt2vec :: "string \<Rightarrow> int list"
  vec2txt :: "int list \<Rightarrow> string"
  ind2tok :: "int \<Rightarrow> string"
  dict_len :: nat

section \<open>Token conversion: parse and v2t\<close>

definition parse :: "dictionary \<Rightarrow> string \<Rightarrow> int list" where
  "parse D text = txt2vec D text"

text \<open>
  The loop of \<^verbatim>\<open>v2t\<close>: \<^verbatim>\<open>break\<close> at \<^verbatim>\<open>END_IDX\<close>, skip \<^verbatim>\<open>START_IDX\<close>, append the rest
  to \<^verbatim>\<open>new_vec\<close>.
\<close>

fun v2t_loop :: "int \<Rightarrow> int \<Rightarrow> int list \<Rightarrow> int list \<Rightarrow> int list" where
  "v2t_loop s e [] new_vec = new_vec"
| "v2t_loop s e (i # vec) new_vec =
     (if i = e then new_vec
      else if i \<noteq> s then v2t_loop s e vec (new_vec @ [i])
      else v2t_loop s e vec new_vec)"

definition v2t :: "dictionary \<Rightarrow> ('f, 'm, 'o) agent \<Rightarrow> int list \<Rightarrow> string" where
  "v2t D a vec = vec2txt D (v2t_loop (START_IDX a) (END_IDX a) vec [])"

section \<open>Resetting\<close>

definition reset_metrics :: "('f::zero, 'm, 'o) agent \<Rightarrow> ('f, 'm, 'o) agent" where
  "reset_metrics a =
     a\<lparr>metrics := (metrics a)\<lparr>loss := 0, num_tokens := 0, correct_tokens := 0\<rparr>\<rparr>"

text \<open>The loop \<^verbatim>\<open>for i in range(len(self.answers)): self.answers[i] = None\<close>.\<close>

fun clear_answers :: "nat list \<Rightarrow> 'f pyval list \<Rightarrow> 'f pyval list" where
  "clear_answers [] ans = ans"
| "clear_answers (i # is) ans = clear_answers is (ans[i := PNone])"

definition reset :: "('f::zero, 'm, 'o) agent \<Rightarrow> ('f, 'm, 'o) agent" where
  "reset a =
     reset_metrics
       (a\<lparr>observation := None,
          history := Map.empty,
          answers := clear_answers [0 ..< length (answers a)] (answers a)\<rparr>)"

section \<open>The default dictionary of the perplexity evaluator\<close>

text \<open>
  \<^verbatim>\<open>mydefaultdict\<close> is a \<^verbatim>\<open>defaultdict\<close>: its factory and its entries. The literal
  \<^verbatim>\<open>1e-7\<close> of \<^verbatim>\<open>next_word_probability\<close> is the parameter \<open>eps\<close>.
\<close>

record 'f mydefaultdict =
  default_factory :: "unit \<Rightarrow> 'f pyval"
  entries :: "string \<rightharpoonup> 'f pyval"

text \<open>
  \<^verbatim>\<open>return super().get(key, default or self.default_factory())\<close>: the argument is
  evaluated first, then \<^verbatim>\<open>dict.get\<close> returns the stored value or that argument.
\<close>

definition mydefaultdict_get ::
    "('f::zero) mydefaultdict \<Rightarrow> string \<Rightarrow> 'f pyval \<Rightarrow> 'f pyval" where
  "mydefaultdict_get d key default_arg =
     (let dflt = py_or default_arg (default_factory d ())
      in case entries d key of Some v \<Rightarrow> v | None \<Rightarrow> dflt)"

text \<open>
  The tail of \<^verbatim>\<open>next_word_probability\<close>: \<open>probs\<close> is the vector computed by the softmax
  over the model's scores (tensor code outside this repository);
  \<^verbatim>\<open>for i in range(len(probs)): dist[self.dict[i]] = probs[i].item()\<close>.
\<close>

fun fill_dist :: "dictionary \<Rightarrow> 'f list \<Rightarrow> nat list \<Rightarrow> 'f mydefaultdict \<Rightarrow> 'f mydefaultdict" where
  "fill_dist D probs [] dst = dst"
| "fill_dist D probs (i # is) dst =
     fill_dist D probs is
       (dst\<lparr>entries := (entries dst)(ind2tok D (int i) \<mapsto> PFloat (probs ! i))\<rparr>)"

definition next_word_probability :: "dictionary \<Rightarrow> 'f \<Rightarrow> 'f list \<Rightarrow> 'f mydefaultdict" where
  "next_word_probability D eps probs =
     fill_dist D probs [0 ..< length probs]
       \<lparr>default_factory = (\<lambda>_. PFloat eps), entries = Map.empty\<rparr>"

section \<open>Observing\<close>

text \<open>\<^verbatim>\<open>d.get(key)\<close> and \<^verbatim>\<open>d.get(key, default)\<close> on a dictionary of values.\<close>

definition dict_get :: "(string \<rightharpoonup> 'f pyval) \<Rightarrow> string \<Rightarrow> 'f pyval \<Rightarrow> 'f pyval" where
  "dict_get d key dflt = (case d key of None \<Rightarrow> dflt | Some v \<Rightarrow> v)"

text \<open>
  \<^verbatim>\<open>deque(xs, maxlen=n)\<close> keeps the last \<open>n\<close> items of an iterable (all of them when
  \<^verbatim>\<open>maxlen\<close> is \<^verbatim>\<open>None\<close>); the deque is represented as a list. A string iterates over
  its characters; a value that is not iterable raises TypeError.
\<close>

definition keep_last :: "nat option \<Rightarrow> 'a list \<Rightarrow> 'a list" where
  "keep_last maxlen xs = (case maxlen of None \<Rightarrow> xs | Some n \<Rightarrow> drop (length xs - n) xs)"

fun deque :: "'f pyval \<Rightarrow> nat option \<Rightarrow> error + 'f pyval" where
  "deque (PList xs) maxlen = Inr (PList (keep_last maxlen xs))"
| "deque (PStr s) maxlen = Inr (PList (keep_last maxlen (map (\<lambda>c. PStr [c]) s)))"
| "deque v maxlen = Inl TypeError"

text \<open>
  \<^verbatim>\<open>maintain_dialog_history\<close> (\<^verbatim>\<open>parlai.core.utils\<close>) is not part of the sources at
  hand. It is a parameter: from the history dictionary, the observation, the reply, the
  history length, the \<^verbatim>\<open>useReplies\<close> option and the person-token flag it returns the
  \<^verbatim>\<open>text2vec\<close> value and the history dictionary as it has updated it, or raises.
\<close>

type_synonym 'f dialog_history_fun =
  "(string \<rightharpoonup> 'f pyval) \<Rightarrow> (string \<rightharpoonup> 'f pyval) \<Rightarrow> 'f pyval \<Rightarrow> nat option \<Rightarrow>
   'f pyval \<Rightarrow> 'f pyval \<Rightarrow> error + ('f pyval \<times> (string \<rightharpoonup> 'f pyval))"

definition observe ::
    "('f::zero) dialog_history_fun \<Rightarrow> ('f, 'm, 'o) agent \<Rightarrow> (string \<rightharpoonup> 'f pyval) \<Rightarrow>
     error + ((string \<rightharpoonup> 'f pyval) \<times> ('f, 'm, 'o) agent)" where
  "observe maintain_dialog_history a observation_arg =
     (let obs = observation_arg;
          text2vec =
            (if \<not> truthy (dict_get obs ''preprocessed'' (PBool False)) \<or> obs ''text2vec'' = None
             then
               (case py_getitem (answers a) (batch_idx a) of
                  Inl e \<Rightarrow> Inl e
                | Inr reply \<Rightarrow>
                    maintain_dialog_history (history a) obs reply (truncate_len a)
                      (dict_get (opt a) ''history_replies'' PNone) (use_person_tokens a))
             else
               (case deque (dict_get obs ''text2vec'' PNone) (truncate_len a) of
                  Inl e \<Rightarrow> Inl e
                | Inr t \<Rightarrow> Inr (t, history a)))
      in case text2vec of
           Inl e \<Rightarrow> Inl e
         | Inr (t, h) \<Rightarrow>
             (let obs' = obs(''text2vec'' \<mapsto> t)
              in case py_setitem (answers a) (batch_idx a) PNone of
                   Inl e \<Rightarrow> Inl e
                 | Inr ans \<Rightarrow> Inr (obs', a\<lparr>history := h, observation := Some obs', answers := ans\<rparr>)))"

section \<open>Reporting\<close>

text \<open>
  Float arithmetic is outside the model: the operations \<^verbatim>\<open>report\<close> uses are parameters.
  \<open>int_truediv\<close> is \<^verbatim>\<open>/\<close> on two integers, \<open>float_div_int\<close> is \<^verbatim>\<open>/\<close> of a float by an
  integer, \<open>math_exp\<close> is \<^verbatim>\<open>math.exp\<close> (which raises OverflowError), \<open>float_inf\<close> is
  \<^verbatim>\<open>float('inf')\<close>. \<^verbatim>\<open>round_sigfigs\<close> (\<^verbatim>\<open>parlai.core.utils\<close>) is not part of the sources
  at hand; it is a parameter that returns the rounded value or raises.
\<close>

record 'f float_ops =
  int_truediv :: "int \<Rightarrow> int \<Rightarrow> 'f"
  float_div_int :: "'f \<Rightarrow> int \<Rightarrow> 'f"
  math_exp :: "'f \<Rightarrow> error + 'f"
  float_inf :: 'f
  round_sigfigs :: "'f pyval \<Rightarrow> nat \<Rightarrow> error + 'f pyval"

text \<open>The dictionary \<^verbatim>\<open>m\<close> of \<^verbatim>\<open>report\<close>, in insertion order, before the rounding loop.\<close>

definition report_entries :: "'f float_ops \<Rightarrow> 'f metrics \<Rightarrow> error + (string \<times> 'f pyval) list" where
  "report_entries F mt =
     (let num_tok = num_tokens mt;
          skipped =
            (if total_skipped_batches mt > 0
             then [(''total_skipped_batches'', PInt (total_skipped_batches mt))] else [])
      in if num_tok > 0 then
           (let acc =
                  (if correct_tokens mt > 0
                   then [(''token_acc'', PFloat (int_truediv F (correct_tokens mt) num_tok))]
                   else []);
                avg = float_div_int F (loss mt) num_tok
            in case math_exp F avg of
                 Inr p \<Rightarrow> Inr (acc @ [(''loss'', PFloat avg), (''ppl'', PFloat p)] @ skipped)
               | Inl OverflowError \<Rightarrow>
                   Inr (acc @ [(''loss'', PFloat avg), (''ppl'', PFloat (float_inf F))] @ skipped)
               | Inl e \<Rightarrow> Inl e)
         else Inr skipped)"

text \<open>\<^verbatim>\<open>for k, v in m.items(): m[k] = round_sigfigs(v, 4)\<close>.\<close>

fun round_items ::
    "('v \<Rightarrow> error + 'v) \<Rightarrow> (string \<times> 'v) list \<Rightarrow> error + (string \<times> 'v) list" where
  "round_items r [] = Inr []"
| "round_items r ((k, v) # kvs) =
     (case r v of
        Inl e \<Rightarrow> Inl e
      | Inr v' \<Rightarrow>
          (case round_items r kvs of Inl e \<Rightarrow> Inl e | Inr kvs' \<Rightarrow> Inr ((k, v') # kvs')))"

definition report ::
    "'f float_ops \<Rightarrow> ('f, 'm, 'o) agent \<Rightarrow> error + (string \<times> 'f pyval) list" where
  "report F a =
     (case report_entries F (metrics a) of
        Inl e \<Rightarrow> Inl e
      | Inr m \<Rightarrow> round_items (\<lambda>v. round_sigfigs F v 4) m)"

section \<open>Saving and restoring\<close>

text \<open>\<^verbatim>\<open>needle in haystack\<close> on strings, and \<^verbatim>\<open>d[key]\<close> with its KeyError.\<close>

fun contains :: "string \<Rightarrow> string \<Rightarrow> bool" where
  "contains needle [] = (needle = [])"
| "contains needle (c # cs) = (prefix needle (c # cs) \<or> contains needle cs)"

definition dict_item :: "(string \<rightharpoonup> 'f pyval) \<Rightarrow> string \<Rightarrow> error + 'f pyval" where
  "dict_item d key = (case d key of None \<Rightarrow> Inl (KeyError key) | Some v \<Rightarrow> Inr v)"

text \<open>\<^verbatim>\<open>x > 0\<close> for a Python value: a TypeError for what does not compare with a number.\<close>

fun py_gt_zero :: "('f::{zero,ord}) pyval \<Rightarrow> error + bool" where
  "py_gt_zero (PInt i) = Inr (i > 0)"
| "py_gt_zero (PFloat x) = Inr (x > 0)"
| "py_gt_zero (PBool b) = Inr b"
| "py_gt_zero v = Inl TypeError"

text \<open>
  The dictionary that \<^verbatim>\<open>save\<close> hands to \<^verbatim>\<open>torch.save\<close> and that \<^verbatim>\<open>load\<close> reads back
  into \<^verbatim>\<open>states\<close>: a key that is absent is \<open>None\<close>. \<open>'sd\<close> is a model state dict,
  \<open>'osd\<close> an optimizer state dict (a dictionary with the keys \<^verbatim>\<open>state\<close> and
  \<^verbatim>\<open>param_groups\<close>, so truthy whenever present).
\<close>

record ('sd, 'osd, 'f) states =
  st_model :: "'sd option"
  st_longest_label :: "int option"
  st_optimizer :: "'osd option"
  st_optimizer_type :: "'f pyval option"

text \<open>\<^verbatim>\<open>if states\<close>: a dictionary is truthy when it has a key.\<close>

definition states_truthy :: "('sd, 'osd, 'f) states \<Rightarrow> bool" where
  "states_truthy st =
     (st_model st \<noteq> None \<or> st_longest_label st \<noteq> None \<or> st_optimizer st \<noteq> None
      \<or> st_optimizer_type st \<noteq> None)"

text \<open>
  The tensor library's part in construction, saving and loading; every operation is a
  parameter. \<open>new_model\<close> is \<^verbatim>\<open>self.model_class(len(self.dict), opt)\<close>, \<open>longest_label\<close>
  the attribute of that name (\<open>None\<close> when the model has none), \<open>preinit_embeddings\<close> the
  initialisation from pretrained vectors (lines 265 to 308), \<open>fix_embeddings\<close> the
  assignments of \<^verbatim>\<open>requires_grad = False\<close> (its argument tells whether the output
  projection is fixed too), \<open>new_optimizer\<close> the optimizer class applied to the model's
  trainable parameters and the keyword arguments. \<open>load_state_dict\<close> and
  \<open>optim_load_state_dict\<close> return the updated object or raise; the library checks the
  state dict before it assigns anything, so the object is as before when they raise.
  \<open>model_cuda\<close> and \<open>optim_cuda\<close> move an object's tensors to the GPU.
\<close>

record ('m, 'o, 'sd, 'osd, 'f) torch_state =
  new_model :: "nat \<Rightarrow> (string \<rightharpoonup> 'f pyval) \<Rightarrow> error + 'm"
  state_dict :: "'m \<Rightarrow> 'sd"
  longest_label :: "'m \<Rightarrow> int option"
  load_state_dict :: "'m \<Rightarrow> 'sd \<Rightarrow> error + 'm"
  model_cuda :: "'m \<Rightarrow> 'm"
  preinit_embeddings :: "(string \<rightharpoonup> 'f pyval) \<Rightarrow> 'm \<Rightarrow> error + 'm"
  fix_embeddings :: "bool \<Rightarrow> 'm \<Rightarrow> 'm"
  new_optimizer :: "string \<Rightarrow> (string \<times> 'f pyval) list \<Rightarrow> 'm \<Rightarrow> error + 'o"
  optim_state_dict :: "'o \<Rightarrow> 'osd"
  optim_load_state_dict :: "'o \<Rightarrow> 'osd \<Rightarrow> error + 'o"
  optim_cuda :: "'o \<Rightarrow> 'o"

text \<open>The files that \<^verbatim>\<open>save\<close> writes: a checkpoint, or the pickled options.\<close>

datatype ('sd, 'osd, 'f) saved_file =
    TorchFile "('sd, 'osd, 'f) states"
  | PickleFile "string \<rightharpoonup> 'f pyval"

text \<open>
  \<^verbatim>\<open>save\<close>. The path argument is \<open>PNone\<close> when it is left out. Nothing is assigned to
  the agent; the files are written after the four entries of the checkpoint are read, so
  an AttributeError (no \<^verbatim>\<open>longest_label\<close>, no optimizer) or a KeyError leaves the files
  as they were. \<^verbatim>\<open>open\<close> is taken to succeed on a string and to raise TypeError on
  another value.
\<close>

definition save ::
    "('m, 'o, 'sd, 'osd, 'f::zero) torch_state \<Rightarrow> ('f, 'm, 'o) agent \<Rightarrow> 'f pyval \<Rightarrow>
     (string \<rightharpoonup> ('sd, 'osd, 'f) saved_file) \<Rightarrow>
     error + (('f, 'm, 'o) agent \<times> (string \<rightharpoonup> ('sd, 'osd, 'f) saved_file))" where
  "save T a path_arg fs =
     (let path = (if path_arg = PNone then dict_get (opt a) ''model_file'' PNone else path_arg)
      in if truthy path \<and> model a \<noteq> None then
           (case model a of
              None \<Rightarrow> Inl (AttributeError ''model'')
            | Some m \<Rightarrow>
                (case longest_label T m of
                   None \<Rightarrow> Inl (AttributeError ''longest_label'')
                 | Some ll \<Rightarrow>
                     (case optimizer a of
                        None \<Rightarrow> Inl (AttributeError ''optimizer'')
                      | Some ob \<Rightarrow>
                          (case dict_item (opt a) ''optimizer'' of
                             Inl e \<Rightarrow> Inl e
                           | Inr ot \<Rightarrow>
                               (case path of
                                  PStr p \<Rightarrow>
                                    Inr (a, fs(p \<mapsto> TorchFile
                                                 \<lparr>st_model = Some (state_dict T m),
                                                  st_longest_label = Some ll,
                                                  st_optimizer = Some (optim_state_dict T ob),
                                                  st_optimizer_type = Some ot\<rparr>,
                                             p @ ''.opt'' \<mapsto> PickleFile (opt a)))
                                | _ \<Rightarrow> Inl TypeError)))))
         else Inr (a, fs))"

text \<open>
  \<^verbatim>\<open>shutdown\<close> saves only when there is a model file and an optimizer
  (\<^verbatim>\<open>super().shutdown()\<close> does nothing to the attributes modelled here).
\<close>

definition shutdown ::
    "('m, 'o, 'sd, 'osd, 'f::zero) torch_state \<Rightarrow> ('f, 'm, 'o) agent \<Rightarrow>
     (string \<rightharpoonup> ('sd, 'osd, 'f) saved_file) \<Rightarrow>
     error + (('f, 'm, 'o) agent \<times> (string \<rightharpoonup> ('sd, 'osd, 'f) saved_file))" where
  "shutdown T a fs =
     (let path = dict_get (opt a) ''model_file'' PNone
      in if path \<noteq> PNone \<and> optimizer a \<noteq> None then
           (case path of
              PStr p \<Rightarrow> save T a (PStr (p @ ''.shutdown_state'')) fs
            | _ \<Rightarrow> Inl TypeError)
         else Inr (a, fs))"

text \<open>
  Construction, from the creation of the model on (line 259). \<open>Fresh st\<close> is an agent of
  its own, with \<open>st\<close> the states loaded from the model file (or the empty dictionary);
  \<open>Shared m st\<close> is an agent that takes the model \<open>m\<close> and the states \<open>st\<close> from
  \<^verbatim>\<open>shared\<close>.
\<close>

datatype ('m, 'st) init_source = Fresh 'st | Shared 'm 'st

fun source_states :: "('m, 'st) init_source \<Rightarrow> 'st" where
  "source_states (Fresh st) = st"
| "source_states (Shared m st) = st"

text \<open>
  Lines 262 to 308: the embeddings are initialised from pretrained vectors when there
  are no states and the embedding type is not \<^verbatim>\<open>random\<close>, unless the tokenizer is
  \<^verbatim>\<open>bpe\<close>. \<^verbatim>\<open>opt['embedding_type']\<close> is only read where \<^verbatim>\<open>and\<close> gets to it.
\<close>

definition init_embeddings ::
    "('m, 'o, 'sd, 'osd, 'f) torch_state \<Rightarrow> ('f, 'm, 'o) agent \<Rightarrow>
     ('sd, 'osd, 'f) states \<Rightarrow> 'm \<Rightarrow> error + 'm" where
  "init_embeddings T a st m0 =
     (case
        (if dict_get (opt a) ''dict_tokenizer'' PNone = PStr ''bpe'' then
           (case dict_item (opt a) ''embedding_type'' of
              Inl e \<Rightarrow> Inl e
            | Inr et \<Rightarrow> Inr (et \<noteq> PStr ''random''))
         else Inr False)
      of
        Inl e \<Rightarrow> Inl e
      | Inr skipping \<Rightarrow>
          if skipping then Inr m0
          else if \<not> states_truthy st then
            (case dict_item (opt a) ''embedding_type'' of
               Inl e \<Rightarrow> Inl e
             | Inr et \<Rightarrow>
                 if et \<noteq> PStr ''random'' then preinit_embeddings T (opt a) m0 else Inr m0)
          else Inr m0)"

text \<open>Lines 259 to 315: the model of an agent of its own.\<close>

definition init_model ::
    "('m, 'o, 'sd, 'osd, 'f) torch_state \<Rightarrow> dictionary \<Rightarrow> ('f, 'm, 'o) agent \<Rightarrow>
     ('sd, 'osd, 'f) states \<Rightarrow> error + 'm" where
  "init_model T D a st =
     (case new_model T (dict_len D) (opt a) of
        Inl e \<Rightarrow> Inl e
      | Inr m0 \<Rightarrow>
          (case init_embeddings T a st m0 of
             Inl e \<Rightarrow> Inl e
           | Inr m1 \<Rightarrow>
               (case
                  (if states_truthy st then
                     (case st_model st of
                        None \<Rightarrow> Inl (KeyError ''model'')
                      | Some sd \<Rightarrow> load_state_dict T m1 sd)
                   else Inr m1)
                of
                  Inl e \<Rightarrow> Inl e
                | Inr m2 \<Rightarrow> Inr (if use_cuda a then model_cuda T m2 else m2))))"

text \<open>The keys of \<^verbatim>\<open>OPTIM_OPTS\<close>.\<close>

definition OPTIM_OPTS :: "string list" where
  "OPTIM_OPTS =
     [''adadelta'', ''adagrad'', ''adam'', ''adamax'', ''asgd'', ''lbfgs'', ''rmsprop'',
      ''rprop'', ''sgd'']"

text \<open>The keyword arguments of the optimizer (lines 336 to 343).\<close>

definition optimizer_kwargs ::
    "(string \<rightharpoonup> ('f::{zero,ord}) pyval) \<Rightarrow> 'f pyval \<Rightarrow> 'f pyval \<Rightarrow>
     error + (string \<times> 'f pyval) list" where
  "optimizer_kwargs o_pt lr ot =
     (case py_gt_zero (dict_get o_pt ''momentum'' PNone) of
        Inl e \<Rightarrow> Inl e
      | Inr mom \<Rightarrow>
          Inr ([(''lr'', lr)]
               @ (if mom \<and> (ot = PStr ''sgd'' \<or> ot = PStr ''rmsprop'')
                  then [(''momentum'', dict_get o_pt ''momentum'' PNone)]
                       @ (if ot = PStr ''sgd'' then [(''nesterov'', PBool True)] else [])
                  else [])
               @ (if ot = PStr ''adam'' then [(''amsgrad'', PBool True)] else [])))"

text \<open>
  Lines 345 to 351: the embeddings are fixed when the embedding type ends in
  \<^verbatim>\<open>fixed\<close>.
\<close>

definition fix_if_fixed ::
    "('m, 'o, 'sd, 'osd, 'f) torch_state \<Rightarrow> ('f, 'm, 'o) agent \<Rightarrow> 'm \<Rightarrow> error + 'm" where
  "fix_if_fixed T a m =
     (case dict_item (opt a) ''embedding_type'' of
        Inl e \<Rightarrow> Inl e
      | Inr et \<Rightarrow>
          (case et of
             PStr ets \<Rightarrow>
               if suffix ''fixed'' ets then
                 (case dict_item (opt a) ''lookuptable'' of
                    Inl e \<Rightarrow> Inl e
                  | Inr lt \<Rightarrow>
                      Inr (fix_embeddings T (lt = PStr ''dec_out'' \<or> lt = PStr ''all'') m))
               else Inr m
           | _ \<Rightarrow> Inl (AttributeError ''endswith'')))"

text \<open>
  Lines 353 to 367: the state of the new optimizer \<open>ob\<close> is restored from the states.
  \<open>ot\<close> is \<^verbatim>\<open>opt['optimizer']\<close>. A ValueError of \<^verbatim>\<open>load_state_dict\<close> is caught and
  leaves the optimizer as it is; another error is not caught.
\<close>

definition restore_optimizer ::
    "('m, 'o, 'sd, 'osd, 'f) torch_state \<Rightarrow> ('f, 'm, 'o) agent \<Rightarrow> 'f pyval \<Rightarrow> 'o \<Rightarrow>
     ('sd, 'osd, 'f) states \<Rightarrow> error + 'o" where
  "restore_optimizer T a ot ob st =
     (case st_optimizer st of
        None \<Rightarrow> Inr ob
      | Some osd \<Rightarrow>
          (case st_optimizer_type st of
             None \<Rightarrow> Inl (KeyError ''optimizer_type'')
           | Some saved_type \<Rightarrow>
               if saved_type \<noteq> ot then Inr ob
               else
                 (case
                    (case optim_load_state_dict T ob osd of
                       Inr ob' \<Rightarrow> Inr ob'
                     | Inl ValueError \<Rightarrow> Inr ob
                     | Inl e \<Rightarrow> Inl e)
                  of
                    Inl e \<Rightarrow> Inl e
                  | Inr ob1 \<Rightarrow> Inr (if use_cuda a then optim_cuda T ob1 else ob1))))"

text \<open>
  Lines 328 to 369: the optimizer is set up only when the datatype option contains
  \<^verbatim>\<open>train\<close>.
\<close>

definition init_optimizer ::
    "('m, 'o, 'sd, 'osd, 'f::{zero,ord}) torch_state \<Rightarrow> ('f, 'm, 'o) agent \<Rightarrow> 'm \<Rightarrow>
     ('sd, 'osd, 'f) states \<Rightarrow> error + ('f, 'm, 'o) agent" where
  "init_optimizer T a m st =
     (case dict_get (opt a) ''datatype'' (PStr []) of
        PStr dt \<Rightarrow>
          if contains ''train'' dt then
            (case dict_item (opt a) ''learningrate'' of
               Inl e \<Rightarrow> Inl e
             | Inr lr \<Rightarrow>
                 (case dict_item (opt a) ''optimizer'' of
                    Inl e \<Rightarrow> Inl e
                  | Inr ot \<Rightarrow>
                      (case ot of
                         PStr oname \<Rightarrow>
                           if oname \<in> set OPTIM_OPTS then
                             (case optimizer_kwargs (opt a) lr ot of
                                Inl e \<Rightarrow> Inl e
                              | Inr kwargs \<Rightarrow>
                                  (case fix_if_fixed T a m of
                                     Inl e \<Rightarrow> Inl e
                                   | Inr m1 \<Rightarrow>
                                       (case new_optimizer T oname kwargs m1 of
                                          Inl e \<Rightarrow> Inl e
                                        | Inr ob \<Rightarrow>
                                            (case restore_optimizer T a ot ob st of
                                               Inl e \<Rightarrow> Inl e
                                             | Inr ob' \<Rightarrow>
                                                 Inr (a\<lparr>clip :=
                                                          dict_get (opt a) ''gradient_clip'' (PInt (- 1)),
                                                        model := Some m1,
                                                        optimizer := Some ob'\<rparr>)))))
                           else Inl (KeyError oname)
                       | _ \<Rightarrow> Inl (KeyError ''optimizer''))))
          else Inr (a\<lparr>model := Some m\<rparr>)
      | _ \<Rightarrow> Inl TypeError)"

text \<open>
  \<^verbatim>\<open>__init__\<close> from line 259 to its end; \<open>a\<close> holds the attributes assigned before. The
  loss criterion and the learning rate scheduler are not attributes of the model here.
\<close>

definition init_agent ::
    "('m, 'o, 'sd, 'osd, 'f::{zero,ord}) torch_state \<Rightarrow> dictionary \<Rightarrow> ('f, 'm, 'o) agent \<Rightarrow>
     ('m, ('sd, 'osd, 'f) states) init_source \<Rightarrow> error + ('f, 'm, 'o) agent" where
  "init_agent T D a src =
     (case (case src of Shared m st \<Rightarrow> Inr m | Fresh st \<Rightarrow> init_model T D a st) of
        Inl e \<Rightarrow> Inl e
      | Inr m \<Rightarrow>
          (case init_optimizer T a m (source_states src) of
             Inl e \<Rightarrow> Inl e
           | Inr a' \<Rightarrow> Inr (reset a')))"

text \<open>The test on line 328: the datatype option is a string that contains \<^verbatim>\<open>train\<close>.\<close>

definition training :: "('f, 'm, 'o) agent \<Rightarrow> bool" where
  "training a =
     (case dict_get (opt a) ''datatype'' (PStr []) of
        PStr dt \<Rightarrow> contains ''train'' dt
      | _ \<Rightarrow> False)"

section \<open>Training and evaluation steps\<close>

text \<open>
  A batch of token indices (a two-dimensional \<^verbatim>\<open>LongTensor\<close>) is the list of its rows.
  \<^verbatim>\<open>torch.LongTensor(rows)\<close> raises ValueError unless the rows have one length.
\<close>

type_synonym tensor = "int list list"

definition rectangular :: "tensor \<Rightarrow> bool" where
  "rectangular t = (case t of [] \<Rightarrow> True | r # rs \<Rightarrow> list_all (\<lambda>x. length x = length r) rs)"

definition LongTensor :: "int list list \<Rightarrow> error + tensor" where
  "LongTensor rows = (if rectangular rows then Inr rows else Inl ValueError)"

text \<open>\<^verbatim>\<open>gold.ne(self.NULL_IDX).long().sum().item()\<close>: the entries that are not padding.\<close>

definition count_ne :: "int \<Rightarrow> tensor \<Rightarrow> int" where
  "count_ne null_idx t = int (length (filter (\<lambda>x. x \<noteq> null_idx) (concat t)))"

text \<open>
  The neural model (\<^verbatim>\<open>.modules.Transformer\<close>, not part of the sources at hand) and the
  tensor library during a step; every operation is a parameter. \<open>forward\<close> is the call
  \<^verbatim>\<open>self.model(xs, ys, rank_during_training=...)\<close> and returns the four components of
  \<^verbatim>\<open>out\<close> that \<^verbatim>\<open>predict\<close> reads: predictions, scores, candidate predictions (or
  \<^verbatim>\<open>None\<close>) and the logits. \<open>cal_performance\<close> returns the value of the loss
  (\<^verbatim>\<open>loss.item()\<close>) and the number of correct tokens; \<open>count_correct\<close> is
  \<^verbatim>\<open>((gold == _preds) * y_ne).sum().item()\<close>; \<open>tensor_div\<close> is \<^verbatim>\<open>loss /= target_tokens\<close>;
  \<open>backward\<close> is \<^verbatim>\<open>loss.backward()\<close> and returns the model with its gradients. An
  operation that raises leaves the model as it was before the call. \<open>ones_long\<close> is
  \<^verbatim>\<open>torch.ones(bsz, maxlen).long().cuda()\<close> and \<open>format_cuda_oom\<close> the message that
  \<^verbatim>\<open>init_cuda_buffer\<close> formats from the batch size and the length.
  \<open>ipdb_set_trace\<close> is how a session of the debugger opened by \<^verbatim>\<open>ipdb.set_trace()\<close>
  ends: \<open>None\<close> when it is continued, the exception when it raises (\<^verbatim>\<open>BdbQuit\<close> when
  the session is quit or the input is closed). A session that is never ended does not
  return; whatever is stated below about a step that returns is stated for steps that
  open no session or whose session ends.
\<close>

record ('m, 'o, 'sc, 'f) torch_step =
  model_train :: "'m \<Rightarrow> 'm"
  model_eval :: "'m \<Rightarrow> 'm"
  zero_grad :: "'o \<Rightarrow> 'm \<Rightarrow> 'm"
  forward ::
    "'m \<Rightarrow> tensor \<Rightarrow> tensor option \<Rightarrow> bool \<Rightarrow>
     error + (tensor \<times> 'sc \<times> int list list option \<times> 'sc)"
  cal_performance :: "'m \<Rightarrow> 'sc \<Rightarrow> tensor \<Rightarrow> 'f pyval \<Rightarrow> error + ('f \<times> int)"
  count_correct :: "tensor \<Rightarrow> tensor \<Rightarrow> int \<Rightarrow> error + int"
  tensor_div :: "'f \<Rightarrow> int \<Rightarrow> 'f"
  backward :: "'m \<Rightarrow> 'f \<Rightarrow> error + 'm"
  clip_grad_norm :: "'m \<Rightarrow> 'f pyval \<Rightarrow> 'm"
  optim_step :: "'o \<Rightarrow> 'm \<Rightarrow> error + ('o \<times> 'm)"
  evaluate :: "'m \<Rightarrow> tensor \<Rightarrow> error + 'sc"
  ones_long :: "'f pyval \<Rightarrow> nat \<Rightarrow> error + tensor"
  format_cuda_oom :: "'f pyval \<Rightarrow> nat \<Rightarrow> string"
  ipdb_set_trace :: "error option"

text \<open>\<^verbatim>\<open>update_params\<close>: clip the gradients when \<^verbatim>\<open>self.clip > 0\<close>, then one optimizer step.\<close>

definition update_params ::
    "('m, 'o, 'sc, 'f::{zero,ord}) torch_step \<Rightarrow> ('f, 'm, 'o) agent \<Rightarrow>
     error + ('f, 'm, 'o) agent" where
  "update_params T a =
     (case py_gt_zero (clip a) of
        Inl e \<Rightarrow> Inl e
      | Inr clipping \<Rightarrow>
          (case model a of
             None \<Rightarrow> Inl (AttributeError ''model'')
           | Some m \<Rightarrow>
               (case optimizer a of
                  None \<Rightarrow> Inl (AttributeError ''optimizer'')
                | Some ob \<Rightarrow>
                    (case optim_step T ob (if clipping then clip_grad_norm T m (clip a) else m) of
                       Inl e \<Rightarrow> Inl e
                     | Inr (ob', m') \<Rightarrow>
                         Inr (a\<lparr>model := Some m', optimizer := Some ob',
                                param_updates := Suc (param_updates a)\<rparr>)))))"

text \<open>
  \<^verbatim>\<open>t.shape[1]\<close> for a tensor given by its rows. The tensor without rows is the
  one-dimensional empty tensor that \<^verbatim>\<open>LongTensor([])\<close> gives: its shape has no second
  entry.
\<close>

definition shape1 :: "tensor \<Rightarrow> error + nat" where
  "shape1 t = (case t of [] \<Rightarrow> Inl IndexError | r # rs \<Rightarrow> Inr (length r))"

text \<open>
  The \<^verbatim>\<open>try\<close> block of the training branch of \<^verbatim>\<open>predict\<close> (lines 514 to 533), run on
  the model \<open>m\<close>. It returns the agent and the local \<^verbatim>\<open>cand_preds\<close> as they are when the
  block is left, and the exception that left it, if any. Line 519 compares the widths of
  the predictions and of the labels (\<^verbatim>\<open>gold.shape\<close> raises AttributeError when \<^verbatim>\<open>ys\<close>
  is \<^verbatim>\<open>None\<close>); when they differ, line 520 opens the debugger, and the block goes on
  only if the session is continued.
\<close>

definition train_block ::
    "('m, 'o, 'sc, 'f::plus) torch_step \<Rightarrow> ('f, 'm, 'o) agent \<Rightarrow> 'm \<Rightarrow> tensor \<Rightarrow>
     tensor option \<Rightarrow> tensor list option \<Rightarrow>
     ('f, 'm, 'o) agent \<times> int list list option \<times> error option" where
  "train_block T a m xs ys cands =
     (case forward T m xs ys (cands \<noteq> None) of
        Inl e \<Rightarrow> (a, None, Some e)
      | Inr (preds, scores, cand_preds, seq_logit_view) \<Rightarrow>
          (case shape1 preds of
             Inl e \<Rightarrow> (a, cand_preds, Some e)
           | Inr preds_width \<Rightarrow>
               (case ys of
                  None \<Rightarrow> (a, cand_preds, Some (AttributeError ''shape''))
                | Some gold \<Rightarrow>
                    (case shape1 gold of
                       Inl e \<Rightarrow> (a, cand_preds, Some e)
                     | Inr gold_width \<Rightarrow>
                         (case (if preds_width \<noteq> gold_width then ipdb_set_trace T else None) of
                            Some e \<Rightarrow> (a, cand_preds, Some e)
                          | None \<Rightarrow>
                              (case dict_item (opt a) ''label_smoothing'' of
                                 Inl e \<Rightarrow> (a, cand_preds, Some e)
                               | Inr smoothing \<Rightarrow>
                                   (case cal_performance T m seq_logit_view gold smoothing of
                                      Inl e \<Rightarrow> (a, cand_preds, Some e)
                                    | Inr (loss_item, n_correct) \<Rightarrow>
                                        (let target_tokens = count_ne (NULL_IDX a) gold
                                         in case count_correct T gold preds (NULL_IDX a) of
                                              Inl e \<Rightarrow> (a, cand_preds, Some e)
                                            | Inr correct \<Rightarrow>
                                                (let a1 =
                                                       a\<lparr>metrics := (metrics a)
                                                          \<lparr>correct_tokens :=
                                                             correct_tokens (metrics a) + correct,
                                                           loss := loss (metrics a) + loss_item,
                                                           num_tokens :=
                                                             num_tokens (metrics a) + target_tokens\<rparr>\<rparr>
                                                 in case backward T m
                                                           (tensor_div T loss_item target_tokens) of
                                                      Inl e \<Rightarrow> (a1, cand_preds, Some e)
                                                    | Inr m' \<Rightarrow>
                                                        (a1\<lparr>model := Some m'\<rparr>, cand_preds,
                                                         None))))))))))"

text \<open>
  The evaluation branch of \<^verbatim>\<open>predict\<close> (lines 546 to 586) on the model \<open>m\<close>, already
  in evaluation mode. Without labels, line 558 reads the name \<^verbatim>\<open>predicted\<close>, which is
  neither a parameter nor assigned anywhere in \<^verbatim>\<open>predict\<close> nor bound at module level
  (the assignment that would bind it is commented out): the read raises NameError.
\<close>

definition eval_branch ::
    "('m, 'o, 'sc, 'f::plus) torch_step \<Rightarrow> ('f, 'm, 'o) agent \<Rightarrow> 'm \<Rightarrow> tensor \<Rightarrow>
     tensor option \<Rightarrow> tensor list option \<Rightarrow>
     error + ((tensor option \<times> int list list option) \<times> ('f, 'm, 'o) agent)" where
  "eval_branch T a m xs ys cands =
     (case ys of
        None \<Rightarrow>
          (case evaluate T m xs of
             Inl e \<Rightarrow> Inl e
           | Inr scores \<Rightarrow> Inl (NameError ''predicted''))
      | Some gold \<Rightarrow>
          (case forward T m xs ys (cands \<noteq> None) of
             Inl e \<Rightarrow> Inl e
           | Inr (preds, scores, cand_preds, seq_logit_view) \<Rightarrow>
               (case dict_item (opt a) ''label_smoothing'' of
                  Inl e \<Rightarrow> Inl e
                | Inr smoothing \<Rightarrow>
                    (case cal_performance T m seq_logit_view gold smoothing of
                       Inl e \<Rightarrow> Inl e
                     | Inr (loss_item, n_correct) \<Rightarrow>
                         (let target_tokens = count_ne (NULL_IDX a) gold
                          in case count_correct T gold preds (NULL_IDX a) of
                               Inl e \<Rightarrow> Inl e
                             | Inr correct \<Rightarrow>
                                 Inr ((Some preds, None),
                                      a\<lparr>metrics := (metrics a)
                                         \<lparr>loss := loss (metrics a) + loss_item,
                                          num_tokens := num_tokens (metrics a) + target_tokens\<rparr>\<rparr>))))))"

text \<open>
  \<^verbatim>\<open>predict\<close>. The result is the pair \<^verbatim>\<open>(predictions, cand_preds)\<close> and the agent
  after the call. In the training branch \<^verbatim>\<open>predictions\<close> is never assigned.
\<close>

definition predict ::
    "('m, 'o, 'sc, 'f::{zero,plus,ord}) torch_step \<Rightarrow> ('f, 'm, 'o) agent \<Rightarrow> tensor \<Rightarrow>
     tensor option \<Rightarrow> tensor list option \<Rightarrow> nat list option \<Rightarrow> bool \<Rightarrow>
     error + ((tensor option \<times> int list list option) \<times> ('f, 'm, 'o) agent)" where
  "predict T a xs ys cands valid_cands is_training =
     (case model a of
        None \<Rightarrow> Inl (AttributeError ''model'')
      | Some m \<Rightarrow>
          if is_training then
            (case optimizer a of
               None \<Rightarrow> Inl (AttributeError ''optimizer'')
             | Some ob \<Rightarrow>
                 (let m0 = zero_grad T ob (model_train T m)
                  in case train_block T (a\<lparr>model := Some m0\<rparr>) m0 xs ys cands of
                       (a1, cand_preds, None) \<Rightarrow>
                         (case update_params T a1 of
                            Inl e \<Rightarrow> Inl e
                          | Inr a2 \<Rightarrow> Inr ((None, cand_preds), a2))
                     | (a1, cand_preds, Some (RuntimeError msg)) \<Rightarrow>
                         if contains ''out of memory'' msg then
                           Inr ((None, cand_preds),
                                a1\<lparr>metrics := (metrics a1)
                                    \<lparr>total_skipped_batches :=
                                       total_skipped_batches (metrics a1) + 1\<rparr>\<rparr>)
                         else Inl (RuntimeError msg)
                     | (a1, cand_preds, Some e) \<Rightarrow> Inl e))
          else eval_branch T (a\<lparr>model := Some (model_eval T m)\<rparr>) (model_eval T m) xs ys cands)"

section \<open>Acting on a batch\<close>

text \<open>
  \<^verbatim>\<open>PaddingUtils\<close> (\<^verbatim>\<open>parlai.core.utils\<close>) is not part of the sources at hand; its two
  class methods are parameters. \<open>pad_text\<close> takes the observations, the \<^verbatim>\<open>end_idx\<close>
  argument (\<open>None\<close> when it is not passed), \<^verbatim>\<open>null_idx\<close>, the \<^verbatim>\<open>eval_labels\<close> argument
  (\<open>None\<close> when it is not passed) and \<^verbatim>\<open>truncate\<close>, and returns the first four
  components of its result: the padded inputs and labels (or \<^verbatim>\<open>None\<close>), the label texts
  (or \<^verbatim>\<open>None\<close>) and the indices of the valid observations. \<open>map_predictions\<close> writes into
  the replies and into \<^verbatim>\<open>self.answers\<close>; it returns both as it leaves them.
\<close>

record padded =
  pad_xs :: "int list list option"
  pad_ys :: "int list list option"
  pad_labels :: "string list option"
  pad_valid_inds :: "int list"

record 'f padding_utils =
  pad_text ::
    "(string \<rightharpoonup> 'f pyval) list \<Rightarrow> int option \<Rightarrow> int \<Rightarrow> bool option \<Rightarrow> nat option \<Rightarrow>
     error + padded"
  map_predictions ::
    "tensor \<Rightarrow> int list \<Rightarrow> (string \<rightharpoonup> 'f pyval) list \<Rightarrow> (string \<rightharpoonup> 'f pyval) list \<Rightarrow>
     int \<Rightarrow> 'f pyval \<Rightarrow> string list option \<Rightarrow> 'f pyval list \<Rightarrow> tensor option \<Rightarrow>
     error + ((string \<rightharpoonup> 'f pyval) list \<times> 'f pyval list)"

text \<open>
  The \<^verbatim>\<open>try\<close> block of \<^verbatim>\<open>init_cuda_buffer\<close>: a forward and a backward pass on a batch
  of ones. The call \<^verbatim>\<open>self.model(dummy, dummy)\<close> leaves \<^verbatim>\<open>rank_during_training\<close> at
  its default, taken to be false.
\<close>

definition cuda_warm_up ::
    "('m, 'o, 'sc, 'f) torch_step \<Rightarrow> ('f, 'm, 'o) agent \<Rightarrow> nat \<Rightarrow> error + ('f, 'm, 'o) agent" where
  "cuda_warm_up T a batchsize =
     (let bsz = dict_get (opt a) ''batchsize'' (PInt (int batchsize));
          maxlen = (case truncate_len a of None \<Rightarrow> 180 | Some n \<Rightarrow> if n = 0 then 180 else n)
      in case ones_long T bsz maxlen of
           Inl e \<Rightarrow> Inl e
         | Inr dummy \<Rightarrow>
             (case model a of
                None \<Rightarrow> Inl (AttributeError ''model'')
              | Some m \<Rightarrow>
                  (case forward T m dummy (Some dummy) False of
                     Inl e \<Rightarrow> Inl e
                   | Inr (preds, scores, cand_preds, seq_logit_view) \<Rightarrow>
                       (case dict_item (opt a) ''label_smoothing'' of
                          Inl e \<Rightarrow> Inl e
                        | Inr smoothing \<Rightarrow>
                            (case cal_performance T m seq_logit_view dummy smoothing of
                               Inl e \<Rightarrow> Inl e
                             | Inr (loss_item, n_correct) \<Rightarrow>
                                 (case backward T m loss_item of
                                    Inl e \<Rightarrow> Inl e
                                  | Inr m' \<Rightarrow>
                                      Inr (a\<lparr>model := Some m', buffer_initialized := True\<rparr>)))))))"

definition init_cuda_buffer ::
    "('m, 'o, 'sc, 'f) torch_step \<Rightarrow> ('f, 'm, 'o) agent \<Rightarrow> nat \<Rightarrow> error + ('f, 'm, 'o) agent" where
  "init_cuda_buffer T a batchsize =
     (if use_cuda a \<and> \<not> buffer_initialized a then
        (case cuda_warm_up T a batchsize of
           Inr a' \<Rightarrow> Inr a'
         | Inl (RuntimeError msg) \<Rightarrow>
             if contains ''out of memory'' msg then
               Inl (RuntimeError
                      (format_cuda_oom T (dict_get (opt a) ''batchsize'' (PInt (int batchsize)))
                         (case truncate_len a of
                            None \<Rightarrow> 180 | Some n \<Rightarrow> if n = 0 then 180 else n)))
             else Inl (RuntimeError msg)
         | Inl e \<Rightarrow> Inl e)
      else Inr a)"

text \<open>\<^verbatim>\<open>list(x)\<close> and \<^verbatim>\<open>[xs[j] for j in js]\<close>.\<close>

fun py_list :: "'f pyval \<Rightarrow> error + 'f pyval list" where
  "py_list (PList xs) = Inr xs"
| "py_list (PStr s) = Inr (map (\<lambda>c. PStr [c]) s)"
| "py_list v = Inl TypeError"

fun pick :: "'a list \<Rightarrow> int list \<Rightarrow> error + 'a list" where
  "pick xs [] = Inr []"
| "pick xs (j # js) =
     (case py_getitem xs j of
        Inl e \<Rightarrow> Inl e
      | Inr x \<Rightarrow> (case pick xs js of Inl e \<Rightarrow> Inl e | Inr r \<Rightarrow> Inr (x # r)))"

text \<open>
  What \<^verbatim>\<open>vectorize\<close> returns when there is a valid observation. Copying a tensor to the
  GPU does not change its entries and is left out.
\<close>

record 'f vectorized =
  v_xs :: tensor
  v_ys :: "tensor option"
  v_labels :: "string list option"
  v_valid_inds :: "int list"
  v_cands :: "tensor list option"
  v_valid_cands :: "(nat \<times> int \<times> 'f pyval list) list option"
  v_is_training :: bool

text \<open>The loop of \<^verbatim>\<open>vectorize\<close> over \<^verbatim>\<open>enumerate(valid_inds)\<close> (lines 615 to 624).\<close>

fun candidate_loop ::
    "'f padding_utils \<Rightarrow> ('f, 'm, 'o) agent \<Rightarrow> (string \<rightharpoonup> 'f pyval) list \<Rightarrow> (nat \<times> int) list \<Rightarrow>
     tensor list \<Rightarrow> (nat \<times> int \<times> 'f pyval list) list \<Rightarrow>
     error + (tensor list \<times> (nat \<times> int \<times> 'f pyval list) list)" where
  "candidate_loop U a observations [] cands valid_cands = Inr (cands, valid_cands)"
| "candidate_loop U a observations ((i, v) # ivs) cands valid_cands =
     (case py_getitem observations v of
        Inl e \<Rightarrow> Inl e
      | Inr ob \<Rightarrow>
          (case ob ''label_candidates'' of
             None \<Rightarrow> candidate_loop U a observations ivs cands valid_cands
           | Some lcs \<Rightarrow>
               (case py_list lcs of
                  Inl e \<Rightarrow> Inl e
                | Inr curr_lcs \<Rightarrow>
                    (case pad_text U (map (\<lambda>c. [''text'' \<mapsto> c]) curr_lcs) None (NULL_IDX a) None
                            (truncate_len a) of
                       Inl e \<Rightarrow> Inl e
                     | Inr pd \<Rightarrow>
                         (case pick curr_lcs (pad_valid_inds pd) of
                            Inl e \<Rightarrow> Inl e
                          | Inr chosen \<Rightarrow>
                              (case pad_xs pd of
                                 None \<Rightarrow> Inl TypeError
                               | Some rows \<Rightarrow>
                                   (case LongTensor rows of
                                      Inl e \<Rightarrow> Inl e
                                    | Inr cs \<Rightarrow>
                                        candidate_loop U a observations ivs (cands @ [cs])
                                          (valid_cands @ [(i, v, chosen)]))))))))"

text \<open>\<^verbatim>\<open>vectorize\<close>: \<open>None\<close> stands for the tuple of seven \<^verbatim>\<open>None\<close>s.\<close>

definition vectorize ::
    "'f padding_utils \<Rightarrow> ('f, 'm, 'o) agent \<Rightarrow> (string \<rightharpoonup> 'f pyval) list \<Rightarrow>
     error + 'f vectorized option" where
  "vectorize U a observations =
     (let is_training = list_ex (\<lambda>ob. ob ''labels'' \<noteq> None) observations
      in case pad_text U observations (Some (END_IDX a)) (NULL_IDX a) (Some True) (truncate_len a) of
           Inl e \<Rightarrow> Inl e
         | Inr pd \<Rightarrow>
             (case pad_xs pd of
                None \<Rightarrow> Inr None
              | Some rows \<Rightarrow>
                  (case LongTensor rows of
                     Inl e \<Rightarrow> Inl e
                   | Inr xs \<Rightarrow>
                       (case (case pad_ys pd of
                                None \<Rightarrow> Inr None
                              | Some yrows \<Rightarrow>
                                  (case LongTensor yrows of Inl e \<Rightarrow> Inl e | Inr ys \<Rightarrow> Inr (Some ys)))
                        of
                          Inl e \<Rightarrow> Inl e
                        | Inr ys \<Rightarrow>
                            (case (if \<not> is_training \<and> rank a then
                                     (case candidate_loop U a observations
                                             (enumerate 0 (pad_valid_inds pd)) [] [] of
                                        Inl e \<Rightarrow> Inl e
                                      | Inr (cands, valid_cands) \<Rightarrow> Inr (Some cands, Some valid_cands))
                                   else Inr (None, None))
                             of
                               Inl e \<Rightarrow> Inl e
                             | Inr (cands, valid_cands) \<Rightarrow>
                                 Inr (Some \<lparr>v_xs = xs, v_ys = ys, v_labels = pad_labels pd,
                                            v_valid_inds = pad_valid_inds pd, v_cands = cands,
                                            v_valid_cands = valid_cands,
                                            v_is_training = is_training\<rparr>))))))"

text \<open>
  The list comprehension of line 691, for the candidates \<open>cc\<close> of one reply (\<open>None\<close>
  when they are the missing labels): \<^verbatim>\<open>[curr_cands[idx] for idx in order if idx < len(curr_cands)]\<close>.
\<close>

fun candidate_texts :: "'f pyval list option \<Rightarrow> int list \<Rightarrow> error + 'f pyval list" where
  "candidate_texts cc [] = Inr []"
| "candidate_texts cc (idx # order) =
     (case cc of
        None \<Rightarrow> Inl TypeError
      | Some cs \<Rightarrow>
          if idx < int (length cs) then
            (case py_getitem cs idx of
               Inl e \<Rightarrow> Inl e
             | Inr c \<Rightarrow>
                 (case candidate_texts cc order of Inl e \<Rightarrow> Inl e | Inr r \<Rightarrow> Inr (c # r)))
          else candidate_texts cc order)"

text \<open>The loop of lines 687 to 692 from index \<open>i\<close> on, over the rest of \<^verbatim>\<open>valid_cands\<close>.\<close>

fun set_text_candidates ::
    "int list list \<Rightarrow> (int \<times> 'f pyval list option) list \<Rightarrow> nat \<Rightarrow> (string \<rightharpoonup> 'f pyval) list \<Rightarrow>
     error + (string \<rightharpoonup> 'f pyval) list" where
  "set_text_candidates cand_preds [] i batch_reply = Inr batch_reply"
| "set_text_candidates cand_preds ((b_idx, curr_cands) # rest) i batch_reply =
     (case py_getitem cand_preds (int i) of
        Inl e \<Rightarrow> Inl e
      | Inr order \<Rightarrow>
          (case py_getitem batch_reply b_idx of
             Inl e \<Rightarrow> Inl e
           | Inr reply \<Rightarrow>
               (case candidate_texts curr_cands order of
                  Inl e \<Rightarrow> Inl e
                | Inr texts \<Rightarrow>
                    (case py_setitem batch_reply b_idx (reply(''text_candidates'' \<mapsto> PList texts)) of
                       Inl e \<Rightarrow> Inl e
                     | Inr batch_reply' \<Rightarrow>
                         set_text_candidates cand_preds rest (Suc i) batch_reply'))))"

text \<open>
  \<^verbatim>\<open>batch_act\<close>. \<^verbatim>\<open>self.getID()\<close> of the base class returns \<^verbatim>\<open>self.id\<close>. The result is
  the list of replies and the agent after the call.
\<close>

definition batch_act ::
    "('m, 'o, 'sc, 'f::{zero,plus,ord}) torch_step \<Rightarrow> 'f padding_utils \<Rightarrow> ('f, 'm, 'o) agent \<Rightarrow>
     (string \<rightharpoonup> 'f pyval) list \<Rightarrow>
     error + ((string \<rightharpoonup> 'f pyval) list \<times> ('f, 'm, 'o) agent)" where
  "batch_act T U a observations =
     (let batchsize = length observations
      in case init_cuda_buffer T a batchsize of
           Inl e \<Rightarrow> Inl e
         | Inr a1 \<Rightarrow>
             (let batch_reply = replicate batchsize [''id'' \<mapsto> PStr (agent_id a1)]
              in case vectorize U a1 observations of
                   Inl e \<Rightarrow> Inl e
                 | Inr None \<Rightarrow> Inr (batch_reply, a1)
                 | Inr (Some v) \<Rightarrow>
                     (case predict T a1 (v_xs v) (v_ys v) (v_cands v)
                             (map_option (map fst) (v_valid_cands v)) (v_is_training v) of
                        Inl e \<Rightarrow> Inl e
                      | Inr ((predictions, cand_preds), a2) \<Rightarrow>
                          (case (case predictions of
                                   None \<Rightarrow> Inr (batch_reply, answers a2)
                                 | Some p \<Rightarrow>
                                     map_predictions U p (v_valid_inds v) batch_reply observations
                                       (END_IDX a2)
                                       (if v_is_training v then PInt 0 else PFloat (report_freq a2))
                                       (v_labels v) (answers a2) (v_ys v))
                           of
                             Inl e \<Rightarrow> Inl e
                           | Inr (batch_reply1, answers1) \<Rightarrow>
                               (case cand_preds of
                                  None \<Rightarrow> Inr (batch_reply1, a2\<lparr>answers := answers1\<rparr>)
                                | Some cp \<Rightarrow>
                                    (case set_text_candidates cp
                                            (case v_valid_cands v of
                                               None \<Rightarrow>
                                                 map (\<lambda>i. (i, map_option (map PStr) (v_labels v)))
                                                   (v_valid_inds v)
                                             | Some vcs \<Rightarrow>
                                                 map (\<lambda>(i, b_idx, cs). (b_idx, Some cs)) vcs)
                                            0 batch_reply1 of
                                       Inl e \<Rightarrow> Inl e
                                     | Inr batch_reply2 \<Rightarrow>
                                         Inr (batch_reply2, a2\<lparr>answers := answers1\<rparr>)))))))"

text \<open>
  What \<^verbatim>\<open>batch_act\<close> relies on from \<^verbatim>\<open>map_predictions\<close>: it writes into the replies it
  is given, and leaves their number and their \<^verbatim>\<open>id\<close> entries as they are.
\<close>

definition keeps_replies :: "'f padding_utils \<Rightarrow> bool" where
  "keeps_replies U =
     (\<forall>p vi br obs e rf l ans ys br' ans'.
        map_predictions U p vi br obs e rf l ans ys = Inr (br', ans') \<longrightarrow>
        length br' = length br \<and> (\<forall>k < length br. (br' ! k) ''id'' = (br ! k) ''id''))"

section \<open>Concrete inputs\<close>

text \<open>
  A small dictionary over the letters \<open>a\<close> and \<open>b\<close> (one token per character; the full
  stop is the end token, of index 2; index 5 is the unknown token), and an agent as \<^verbatim>\<open>__init__\<close> leaves it for a batch size of
  two, with rationals in the place of floats.
\<close>

definition demo_dict :: dictionary where
  "demo_dict =
     \<lparr>txt2vec =
        map (\<lambda>c. if c = CHR ''a'' then 3 else if c = CHR ''b'' then 4
                 else if c = CHR ''.'' then 2 else 5),
      vec2txt =
        map (\<lambda>i. if i = 3 then CHR ''a'' else if i = 4 then CHR ''b''
                 else if i = 2 then CHR ''.'' else CHR ''?''),
      ind2tok = (\<lambda>i. if i = 3 then ''a'' else if i = 4 then ''b'' else ''__UNK__''),
      dict_len = 6\<rparr>"

definition demo_metrics :: "rat metrics" where
  "demo_metrics = \<lparr>loss = 0, num_tokens = 0, correct_tokens = 0, total_skipped_batches = 0\<rparr>"

definition demo_agent :: "(rat, 'm, 'o) agent" where
  "demo_agent =
     \<lparr>opt = [''optimizer'' \<mapsto> PStr ''sgd'', ''label_smoothing'' \<mapsto> PBool False],
      agent_id = ''Transformer'',
      truncate_len = None,
      metrics = demo_metrics,
      history = Map.empty,
      batch_idx = 0,
      answers = [PNone, PNone],
      observation = None,
      use_person_tokens = PBool False,
      use_cuda = False,
      buffer_initialized = False,
      rank = False,
      report_freq = 1 / 1000,
      START_IDX = 1,
      END_IDX = 2,
      NULL_IDX = 0,
      model = None,
      optimizer = None,
      clip = PFloat (1 / 10),
      param_updates = 0\<rparr>"

text \<open>
  Float operations on rationals for the concrete inputs: exact division, a stand-in for
  \<^verbatim>\<open>math.exp\<close> that overflows above 709 as the double-precision one does, a rational
  above every double for infinity, and a rounding that leaves its argument as it is (the
  concrete inputs have fewer than four significant digits).
\<close>

definition demo_float_ops :: "rat float_ops" where
  "demo_float_ops =
     \<lparr>int_truediv = (\<lambda>a b. of_int a / of_int b),
      float_div_int = (\<lambda>x n. x / of_int n),
      math_exp = (\<lambda>x. if x > 709 then Inl OverflowError else Inr (1 + x)),
      float_inf = 10 ^ 309,
      round_sigfigs = (\<lambda>v n. Inr v)\<rparr>"

text \<open>A dialogue history function that returns the reply as the only history item.\<close>

definition demo_history_fun :: "rat dialog_history_fun" where
  "demo_history_fun h ob reply maxlen use_replies person_tokens =
     Inr (PList (if reply = PNone then [] else [reply]), h)"

text \<open>
  A tensor library on lists of integers: a model is its parameter vector, an optimizer
  its state vector, a state dict the vector itself. Loading a model state dict of another
  length raises a RuntimeError, loading an optimizer state dict of more than one entry a
  ValueError.
\<close>

definition demo_torch_state :: "(int list, int list, int list, int list, rat) torch_state" where
  "demo_torch_state =
     \<lparr>new_model = (\<lambda>n o_pt. Inr (replicate n 0)),
      state_dict = (\<lambda>m. m),
      longest_label = (\<lambda>m. Some 1),
      load_state_dict =
        (\<lambda>m sd. if length sd = length m then Inr sd else Inl (RuntimeError ''size mismatch'')),
      model_cuda = (\<lambda>m. m),
      preinit_embeddings = (\<lambda>o_pt m. Inr m),
      fix_embeddings = (\<lambda>b m. m),
      new_optimizer = (\<lambda>name kwargs m. Inr []),
      optim_state_dict = (\<lambda>ob. ob),
      optim_load_state_dict = (\<lambda>ob osd. if length osd \<le> 1 then Inr osd else Inl ValueError),
      optim_cuda = (\<lambda>ob. ob)\<rparr>"

definition demo_train_opt :: "string \<rightharpoonup> rat pyval" where
  "demo_train_opt =
     [''optimizer'' \<mapsto> PStr ''sgd'', ''label_smoothing'' \<mapsto> PBool False,
      ''datatype'' \<mapsto> PStr ''train'', ''learningrate'' \<mapsto> PInt 1,
      ''momentum'' \<mapsto> PInt (- 1), ''embedding_type'' \<mapsto> PStr ''random'',
      ''model_file'' \<mapsto> PStr ''/tmp/m'']"

text \<open>
  An agent set up for training with a model of two parameters and an optimizer, and
  three checkpoints for a dictionary of six tokens: one saved with the same optimizer,
  one saved with another optimizer, one whose optimizer state does not fit.
\<close>

definition demo_trainer :: "(rat, int list, int list) agent" where
  "demo_trainer = demo_agent\<lparr>opt := demo_train_opt, model := Some [1, 2], optimizer := Some [3]\<rparr>"

definition demo_states :: "string \<Rightarrow> int list \<Rightarrow> (int list, int list, rat) states" where
  "demo_states saved_type osd =
     \<lparr>st_model = Some [1, 2, 3, 4, 5, 6], st_longest_label = Some 1,
      st_optimizer = Some osd, st_optimizer_type = Some (PStr saved_type)\<rparr>"

text \<open>
  A model for the steps: the forward pass returns the inputs as predictions and, when it
  is asked to rank candidates, one candidate ordering; the backward pass runs out of
  memory on a model of more than two parameters; a step adds one to every parameter; a
  debugger session is quit.
\<close>

definition demo_torch_step :: "(int list, int list, unit, rat) torch_step" where
  "demo_torch_step =
     \<lparr>model_train = (\<lambda>m. m),
      model_eval = (\<lambda>m. m),
      zero_grad = (\<lambda>ob m. m),
      forward = (\<lambda>m xs ys ranking. Inr (xs, (), if ranking then Some [[0]] else None, ())),
      cal_performance = (\<lambda>m logits gold smoothing. Inr (3, 1)),
      count_correct = (\<lambda>gold preds null_idx. Inr 1),
      tensor_div = (\<lambda>x n. x / of_int n),
      backward =
        (\<lambda>m x. if length m > 2 then Inl (RuntimeError ''CUDA error: out of memory'') else Inr m),
      clip_grad_norm = (\<lambda>m c. m),
      optim_step = (\<lambda>ob m. Inr (ob, map (\<lambda>x. x + 1) m)),
      evaluate = (\<lambda>m xs. Inr ()),
      ones_long = (\<lambda>bsz maxlen. Inr []),
      format_cuda_oom = (\<lambda>bsz maxlen. ''CUDA OOM: Lower batch size''),
      ipdb_set_trace = Some BdbQuit\<rparr>"

text \<open>
  Padding utilities for the concrete inputs. An observation is valid when it has a text;
  its label is the first of \<^verbatim>\<open>labels\<close> or else of \<^verbatim>\<open>eval_labels\<close>. The rows are the
  texts in the indices of the small dictionary, padded with the null index to the longest
  row; the predictions are written into the replies as text.
\<close>

definition demo_label :: "(string \<rightharpoonup> rat pyval) \<Rightarrow> string option" where
  "demo_label ob =
     (case ob ''labels'' of
        Some (PList (PStr l # ls)) \<Rightarrow> Some l
      | _ \<Rightarrow> (case ob ''eval_labels'' of Some (PList (PStr l # ls)) \<Rightarrow> Some l | _ \<Rightarrow> None))"

fun demo_rows :: "(string \<rightharpoonup> rat pyval) list \<Rightarrow> nat \<Rightarrow> (nat \<times> string \<times> string option) list" where
  "demo_rows [] i = []"
| "demo_rows (ob # obs) i =
     (case ob ''text'' of
        Some (PStr s) \<Rightarrow> (i, s, demo_label ob) # demo_rows obs (Suc i)
      | _ \<Rightarrow> demo_rows obs (Suc i))"

definition pad_rows :: "int \<Rightarrow> int list list \<Rightarrow> int list list" where
  "pad_rows null_idx rows =
     map (\<lambda>r. r @ replicate (foldr (\<lambda>r m. max (length r) m) rows 0 - length r) null_idx) rows"

definition demo_pad_text ::
    "(string \<rightharpoonup> rat pyval) list \<Rightarrow> int option \<Rightarrow> int \<Rightarrow> bool option \<Rightarrow> nat option \<Rightarrow>
     error + padded" where
  "demo_pad_text obs end_idx null_idx eval_labels trunc =
     (let rows = demo_rows obs 0;
          labelled = list_all (\<lambda>(i, s, l). l \<noteq> None) rows;
          label_of = (\<lambda>l. case l of None \<Rightarrow> [] | Some t \<Rightarrow> t)
      in if rows = [] then
           Inr \<lparr>pad_xs = None, pad_ys = None, pad_labels = None, pad_valid_inds = []\<rparr>
         else
           Inr \<lparr>pad_xs = Some (pad_rows null_idx (map (\<lambda>(i, s, l). txt2vec demo_dict s) rows)),
                pad_ys =
                  (if labelled then
                     Some (pad_rows null_idx
                             (map (\<lambda>(i, s, l). txt2vec demo_dict (label_of l)
                                     @ (case end_idx of None \<Rightarrow> [] | Some e \<Rightarrow> [e])) rows))
                   else None),
                pad_labels = (if labelled then Some (map (\<lambda>(i, s, l). label_of l) rows) else None),
                pad_valid_inds = map (\<lambda>(i, s, l). int i) rows\<rparr>)"

fun demo_write_texts ::
    "tensor \<Rightarrow> int list \<Rightarrow> (string \<rightharpoonup> rat pyval) list \<Rightarrow> (string \<rightharpoonup> rat pyval) list" where
  "demo_write_texts (p # ps) (i # vi) br =
     demo_write_texts ps vi (br[nat i := (br ! nat i)(''text'' \<mapsto> PStr (vec2txt demo_dict p))])"
| "demo_write_texts ps vi br = br"

definition demo_padding_utils :: "rat padding_utils" where
  "demo_padding_utils =
     \<lparr>pad_text = demo_pad_text,
      map_predictions =
        (\<lambda>p vi br obs end_idx rf labels ans ys. Inr (demo_write_texts p vi br, ans))\<rparr>"

section \<open>Properties\<close>

subsection \<open>v2t\<close>

lemma v2t_loop_filter:
  "v2t_loop s e vec acc = acc @ filter (\<lambda>i. i \<noteq> s) (takeWhile (\<lambda>i. i \<noteq> e) vec)"
  by (induction vec arbitrary: acc) auto

lemma takeWhile_absent: "e \<notin> set vec \<Longrightarrow> takeWhile (\<lambda>i. i \<noteq> e) vec = vec"
  by (induction vec) auto

lemma filter_absent: "s \<notin> set vec \<Longrightarrow> filter (\<lambda>i. i \<noteq> s) vec = vec"
  by (induction vec) auto

text \<open>
  C7, as the code has it. \<^verbatim>\<open>parse\<close> is the dictionary's \<^verbatim>\<open>txt2vec\<close>; \<^verbatim>\<open>v2t\<close> renders,
  through the dictionary's \<^verbatim>\<open>vec2txt\<close>, the indices before the first \<^verbatim>\<open>END_IDX\<close> that
  are not \<^verbatim>\<open>START_IDX\<close>. So an index sequence with neither marker is rendered whole and
  in order, and \<^verbatim>\<open>v2t(parse(text))\<close> is \<^verbatim>\<open>vec2txt(txt2vec(text))\<close>, the text as the
  vocabulary renders it, whenever the parsed text holds neither marker.
\<close>

theorem v2t_parse_roundtrip:
  "parse D text = txt2vec D text
   \<and> v2t D a vec =
       vec2txt D (filter (\<lambda>i. i \<noteq> START_IDX a) (takeWhile (\<lambda>i. i \<noteq> END_IDX a) vec))
   \<and> (START_IDX a \<notin> set vec \<and> END_IDX a \<notin> set vec \<longrightarrow> v2t D a vec = vec2txt D vec)
   \<and> (START_IDX a \<notin> set (parse D text) \<and> END_IDX a \<notin> set (parse D text) \<longrightarrow>
        v2t D a (parse D text) = vec2txt D (txt2vec D text))"
  by (simp add: parse_def v2t_def v2t_loop_filter takeWhile_absent filter_absent)

theorem v2t_parse_roundtrip_witness:
  "v2t demo_dict (demo_agent :: (rat, unit, unit) agent) [1, 3, 1, 4, 2, 3] = ''ab''
   \<and> v2t demo_dict (demo_agent :: (rat, unit, unit) agent) (parse demo_dict ''abba'') = ''abba''"
  using v2t_parse_roundtrip [of demo_dict "''abba''" "demo_agent :: (rat, unit, unit) agent"
      "[1, 3, 1, 4, 2, 3]"]
  by (simp add: demo_dict_def demo_agent_def parse_def)

text \<open>
  The claim as it is written (\<^verbatim>\<open>v2t(parse(text))\<close> takes every text through the
  vocabulary and back) fails for a text that holds the end token: it is cut there, and
  \<^verbatim>\<open>v2t(parse(text))\<close> is neither the text nor \<^verbatim>\<open>vec2txt(txt2vec(text))\<close>.
\<close>

theorem v2t_parse_truncates_counterexample:
  "parse demo_dict ''a.b'' = [3, 2, 4]
   \<and> END_IDX (demo_agent :: (rat, unit, unit) agent) = 2
   \<and> v2t demo_dict (demo_agent :: (rat, unit, unit) agent) (parse demo_dict ''a.b'') = ''a''
   \<and> vec2txt demo_dict (txt2vec demo_dict ''a.b'') = ''a.b''"
  by (simp add: v2t_def parse_def demo_dict_def demo_agent_def)

subsection \<open>reset\<close>

lemma clear_answers_length: "length (clear_answers is ans) = length ans"
  by (induction "is" arbitrary: ans) auto

lemma clear_answers_nth:
  "k < length ans \<Longrightarrow>
   clear_answers is ans ! k = (if k \<in> set is then PNone else ans ! k)"
  by (induction "is" arbitrary: ans) (auto simp: nth_list_update)

lemma clear_answers_all:
  "clear_answers [0 ..< length ans] ans = replicate (length ans) PNone"
  by (rule nth_equalityI) (auto simp: clear_answers_length clear_answers_nth)

text \<open>
  C9. \<^verbatim>\<open>reset_metrics\<close> sets \<^verbatim>\<open>loss\<close>, \<^verbatim>\<open>num_tokens\<close> and \<^verbatim>\<open>correct_tokens\<close> to zero
  and leaves \<^verbatim>\<open>total_skipped_batches\<close> as it was; \<^verbatim>\<open>reset\<close>, which ends with
  \<^verbatim>\<open>reset_metrics\<close>, does the same to the metrics, so the count of skipped batches
  survives both.
\<close>

theorem reset_metrics_keeps_skipped:
  "loss (metrics (reset_metrics a)) = 0
   \<and> num_tokens (metrics (reset_metrics a)) = 0
   \<and> correct_tokens (metrics (reset_metrics a)) = 0
   \<and> total_skipped_batches (metrics (reset_metrics a)) = total_skipped_batches (metrics a)
   \<and> metrics (reset a) = metrics (reset_metrics a)
   \<and> total_skipped_batches (metrics (reset a)) = total_skipped_batches (metrics a)
   \<and> answers (reset a) = replicate (length (answers a)) PNone
   \<and> observation (reset a) = None"
  by (simp add: reset_metrics_def reset_def clear_answers_all)

theorem reset_metrics_keeps_skipped_witness:
  "total_skipped_batches
     (metrics (reset (reset_metrics
        ((demo_agent :: (rat, unit, unit) agent)
           \<lparr>metrics := demo_metrics\<lparr>loss := 7, num_tokens := 3, total_skipped_batches := 2\<rparr>\<rparr>)))) = 2
   \<and> num_tokens
     (metrics (reset_metrics
        ((demo_agent :: (rat, unit, unit) agent)
           \<lparr>metrics := demo_metrics\<lparr>loss := 7, num_tokens := 3, total_skipped_batches := 2\<rparr>\<rparr>))) = 0"
  using reset_metrics_keeps_skipped
      [of "(demo_agent :: (rat, unit, unit) agent)
             \<lparr>metrics := demo_metrics\<lparr>loss := 7, num_tokens := 3, total_skipped_batches := 2\<rparr>\<rparr>"]
    reset_metrics_keeps_skipped
      [of "reset_metrics ((demo_agent :: (rat, unit, unit) agent)
             \<lparr>metrics := demo_metrics\<lparr>loss := 7, num_tokens := 3, total_skipped_batches := 2\<rparr>\<rparr>)"]
  by simp

subsection \<open>The default dictionary\<close>

lemma fill_dist_factory: "default_factory (fill_dist D probs is dst) = default_factory dst"
  by (induction "is" arbitrary: dst) auto

lemma fill_dist_absent:
  "key \<notin> (\<lambda>i. ind2tok D (int i)) ` set is \<Longrightarrow>
   entries (fill_dist D probs is dst) key = entries dst key"
  by (induction "is" arbitrary: dst) auto

lemma next_word_probability_absent:
  "key \<notin> (\<lambda>i. ind2tok D (int i)) ` {0 ..< length probs} \<Longrightarrow>
   entries (next_word_probability D eps probs) key = None"
  by (simp add: next_word_probability_def fill_dist_absent)

lemma next_word_probability_factory:
  "default_factory (next_word_probability D eps probs) () = PFloat eps"
  by (simp add: next_word_probability_def fill_dist_factory)

text \<open>
  What \<^verbatim>\<open>get\<close> does. For a key that is missing it returns the caller's default when
  that default is truthy and the factory's value otherwise (no default, or a falsy one
  such as \<^verbatim>\<open>None\<close>, \<^verbatim>\<open>0\<close> or \<^verbatim>\<open>0.0\<close>); a stored value is returned as it is. So the
  distribution of \<^verbatim>\<open>next_word_probability\<close> answers \<^verbatim>\<open>1e-7\<close> for a word it does not
  hold when the caller's default is falsy.
\<close>

lemma mydefaultdict_get_missing:
  "(entries d key = None \<longrightarrow>
      mydefaultdict_get d key dflt = (if truthy dflt then dflt else default_factory d ()))
   \<and> (entries d key = Some v \<longrightarrow> mydefaultdict_get d key dflt = v)
   \<and> (key \<notin> (\<lambda>i. ind2tok D (int i)) ` {0 ..< length probs} \<and> \<not> truthy dflt \<longrightarrow>
        mydefaultdict_get (next_word_probability D eps probs) key dflt = PFloat eps)"
  by (simp add: mydefaultdict_get_def py_or_def next_word_probability_absent
      next_word_probability_factory)

text \<open>
  C10, on the code. The docstring of \<^verbatim>\<open>mydefaultdict\<close> says that it overrides the defaults
  requested by \<^verbatim>\<open>get\<close> with the default factory, as \<^verbatim>\<open>__getitem__\<close> does. The code
  passes \<^verbatim>\<open>default or self.default_factory()\<close> on: asked for a word that the
  distribution does not hold, with the default \<^verbatim>\<open>0.5\<close>, it answers \<^verbatim>\<open>0.5\<close> and not
  the factory's \<^verbatim>\<open>1e-7\<close>.
\<close>

theorem mydefaultdict_get_keeps_truthy_default:
  "entries (next_word_probability demo_dict (1 / 10000000 :: rat) [1 / 4, 3 / 4]) ''a'' = None
   \<and> default_factory (next_word_probability demo_dict (1 / 10000000 :: rat) [1 / 4, 3 / 4]) ()
       = PFloat (1 / 10000000)
   \<and> mydefaultdict_get (next_word_probability demo_dict (1 / 10000000 :: rat) [1 / 4, 3 / 4])
        ''a'' (PFloat (1 / 2)) = PFloat (1 / 2)
   \<and> mydefaultdict_get (next_word_probability demo_dict (1 / 10000000 :: rat) [1 / 4, 3 / 4])
        ''a'' (PInt 0) = PFloat (1 / 10000000)"
  by (simp add: mydefaultdict_get_def py_or_def next_word_probability_def demo_dict_def upt_rec)

subsection \<open>observe\<close>

lemma observe_result:
  "observe mdh a ob = Inr (r, a') \<Longrightarrow>
     py_getitem (answers a') (batch_idx a') = Inr PNone \<and> batch_idx a' = batch_idx a
     \<and> observation a' = Some r \<and> length (answers a') = length (answers a)"
  by (auto simp: observe_def Let_def py_setitem_def py_getitem_def py_index_def
      split: sum.splits if_splits prod.splits)

lemma observe_reply_None:
  "py_getitem (answers a) (batch_idx a) = Inr PNone \<Longrightarrow>
   observe mdh a ob = observe (\<lambda>h ob reply. mdh h ob PNone) a ob"
  by (auto simp: observe_def Let_def split: sum.splits if_splits prod.splits)

lemma observe_returns:
  "\<not> truthy (dict_get ob ''preprocessed'' (PBool False)) \<or> ob ''text2vec'' = None \<Longrightarrow>
   py_getitem (answers a) (batch_idx a) = Inr reply \<Longrightarrow>
   mdh (history a) ob reply (truncate_len a) (dict_get (opt a) ''history_replies'' PNone)
     (use_person_tokens a) = Inr (t, h) \<Longrightarrow>
   \<exists>r a'. observe mdh a ob = Inr (r, a')"
  by (auto simp: observe_def Let_def py_setitem_def py_getitem_def split: option.splits)

text \<open>
  C8. When \<^verbatim>\<open>observe\<close> returns, the slot \<^verbatim>\<open>self.answers[self.batch_idx]\<close> is
  \<^verbatim>\<open>None\<close> (and the batch index is the one before the call). So the next call of
  \<^verbatim>\<open>observe\<close> hands \<^verbatim>\<open>None\<close> as the reply to the dialogue history: it behaves as with
  a history function that ignores the reply it is given. And \<^verbatim>\<open>observe\<close> does return
  for an observation that is not preprocessed whenever the slot exists and the dialogue
  history function returns.
\<close>

theorem observe_clears_answer:
  "(observe mdh a ob = Inr (r, a') \<longrightarrow>
      py_getitem (answers a') (batch_idx a') = Inr PNone
      \<and> batch_idx a' = batch_idx a
      \<and> observation a' = Some r
      \<and> observe mdh a' ob2 = observe (\<lambda>h ob reply. mdh h ob PNone) a' ob2)
   \<and> ((\<not> truthy (dict_get ob ''preprocessed'' (PBool False)) \<or> ob ''text2vec'' = None)
        \<and> py_getitem (answers a) (batch_idx a) = Inr reply
        \<and> mdh (history a) ob reply (truncate_len a) (dict_get (opt a) ''history_replies'' PNone)
             (use_person_tokens a) = Inr (t, h) \<longrightarrow>
        (\<exists>r0 a0. observe mdh a ob = Inr (r0, a0)))"
  using observe_result [of mdh a ob r a'] observe_reply_None [of a' mdh ob2]
    observe_returns [of ob a reply mdh t h]
  by blast

theorem observe_clears_answer_witness:
  "\<exists>r a'. observe demo_history_fun
       ((demo_agent :: (rat, unit, unit) agent)\<lparr>answers := [PStr ''hello'', PNone]\<rparr>)
       [''text'' \<mapsto> PStr ''ab''] = Inr (r, a')
     \<and> r ''text2vec'' = Some (PList [PStr ''hello''])
     \<and> py_getitem (answers a') (batch_idx a') = Inr PNone"
proof -
  let ?a = "(demo_agent :: (rat, unit, unit) agent)\<lparr>answers := [PStr ''hello'', PNone]\<rparr>"
  let ?ob = "[''text'' \<mapsto> PStr ''ab''] :: string \<rightharpoonup> rat pyval"
  have "\<exists>r a'. observe demo_history_fun ?a ?ob = Inr (r, a')
          \<and> r ''text2vec'' = Some (PList [PStr ''hello''])"
    by (simp add: observe_def Let_def demo_history_fun_def demo_agent_def dict_get_def
        py_getitem_def py_setitem_def py_index_def)
  then obtain r a' where run: "observe demo_history_fun ?a ?ob = Inr (r, a')"
    and r: "r ''text2vec'' = Some (PList [PStr ''hello''])" by blast
  from observe_clears_answer [of demo_history_fun ?a ?ob r a'] run
  have "py_getitem (answers a') (batch_idx a') = Inr PNone" by blast
  with run r show ?thesis by blast
qed

subsection \<open>report\<close>

lemma round_items_map_of:
  "round_items r kvs = Inr kvs' \<Longrightarrow>
   map_option Inr (map_of kvs' k) = map_option r (map_of kvs k)"
  by (induction kvs arbitrary: kvs') (auto split: sum.splits)

lemma round_items_total:
  "(\<And>v. \<exists>v'. r v = Inr v') \<Longrightarrow> \<exists>kvs'. round_items r kvs = Inr kvs'"
proof (induction kvs)
  case Nil
  then show ?case by simp
next
  case (Cons kv kvs)
  obtain k v where kv: "kv = (k, v)" by (cases kv)
  from Cons.prems obtain v' where "r v = Inr v'" by blast
  moreover from Cons obtain kvs' where "round_items r kvs = Inr kvs'" by blast
  ultimately show ?case by (simp add: kv)
qed

lemma report_entries_pos:
  "report_entries F mt = Inr m \<Longrightarrow> 0 < num_tokens mt \<Longrightarrow>
   map_of m ''loss'' = Some (PFloat (float_div_int F (loss mt) (num_tokens mt)))
   \<and> map_of m ''ppl'' =
       Some (PFloat (case math_exp F (float_div_int F (loss mt) (num_tokens mt)) of
                       Inr p \<Rightarrow> p | Inl e \<Rightarrow> float_inf F))"
  by (auto simp: report_entries_def Let_def split: sum.splits error.splits if_splits)

lemma report_entries_nonpos:
  "report_entries F mt = Inr m \<Longrightarrow> \<not> 0 < num_tokens mt \<Longrightarrow>
   map_of m ''loss'' = None \<and> map_of m ''ppl'' = None \<and> map_of m ''token_acc'' = None"
  by (auto simp: report_entries_def Let_def split: sum.splits error.splits if_splits)

lemma report_entries_total:
  "(\<And>x e. math_exp F x = Inl e \<Longrightarrow> e = OverflowError) \<Longrightarrow>
   \<exists>m. report_entries F mt = Inr m"
  by (auto simp: report_entries_def Let_def split: sum.splits error.splits if_splits)

lemma report_pos:
  assumes "report F a = Inr m" and "0 < num_tokens (metrics a)"
  shows "map_option Inr (map_of m ''loss'') =
           Some (round_sigfigs F
             (PFloat (float_div_int F (loss (metrics a)) (num_tokens (metrics a)))) 4)"
    and "map_option Inr (map_of m ''ppl'') =
           Some (round_sigfigs F
             (PFloat (case math_exp F (float_div_int F (loss (metrics a)) (num_tokens (metrics a)))
                      of Inr p \<Rightarrow> p | Inl e \<Rightarrow> float_inf F)) 4)"
proof -
  from assms(1) obtain m0 where m0: "report_entries F (metrics a) = Inr m0"
    and r: "round_items (\<lambda>v. round_sigfigs F v 4) m0 = Inr m"
    by (auto simp: report_def split: sum.splits)
  from report_entries_pos [OF m0 assms(2)] round_items_map_of [OF r, of "''loss''"]
  show "map_option Inr (map_of m ''loss'') =
           Some (round_sigfigs F
             (PFloat (float_div_int F (loss (metrics a)) (num_tokens (metrics a)))) 4)"
    by simp
  from report_entries_pos [OF m0 assms(2)] round_items_map_of [OF r, of "''ppl''"]
  show "map_option Inr (map_of m ''ppl'') =
           Some (round_sigfigs F
             (PFloat (case math_exp F (float_div_int F (loss (metrics a)) (num_tokens (metrics a)))
                      of Inr p \<Rightarrow> p | Inl e \<Rightarrow> float_inf F)) 4)"
    by simp
qed

lemma report_nonpos:
  assumes "report F a = Inr m" and "\<not> 0 < num_tokens (metrics a)"
  shows "map_of m ''loss'' = None \<and> map_of m ''ppl'' = None \<and> map_of m ''token_acc'' = None"
proof -
  from assms(1) obtain m0 where m0: "report_entries F (metrics a) = Inr m0"
    and r: "round_items (\<lambda>v. round_sigfigs F v 4) m0 = Inr m"
    by (auto simp: report_def split: sum.splits)
  from report_entries_nonpos [OF m0 assms(2)]
    round_items_map_of [OF r, of "''loss''"] round_items_map_of [OF r, of "''ppl''"]
    round_items_map_of [OF r, of "''token_acc''"]
  show ?thesis by simp
qed

lemma report_total:
  assumes "\<And>v. \<exists>v'. round_sigfigs F v 4 = Inr v'"
    and "\<And>x e. math_exp F x = Inl e \<Longrightarrow> e = OverflowError"
  shows "\<exists>m. report F a = Inr m"
proof -
  from report_entries_total [of F "metrics a"] assms(2)
  obtain m0 where m0: "report_entries F (metrics a) = Inr m0" by blast
  from round_items_total [of "\<lambda>v. round_sigfigs F v 4" m0] assms(1)
  obtain m where "round_items (\<lambda>v. round_sigfigs F v 4) m0 = Inr m" by blast
  with m0 show ?thesis by (simp add: report_def)
qed

text \<open>
  C1. With \<^verbatim>\<open>num_tokens > 0\<close> the dictionary that \<^verbatim>\<open>report\<close> returns has, under
  \<^verbatim>\<open>loss\<close>, \<^verbatim>\<open>round_sigfigs\<close> (to 4 figures) of \<^verbatim>\<open>metrics['loss'] / num_tokens\<close> and,
  under \<^verbatim>\<open>ppl\<close>, \<^verbatim>\<open>round_sigfigs\<close> of \<^verbatim>\<open>math.exp\<close> of that average, or of infinity when
  \<^verbatim>\<open>math.exp\<close> raises OverflowError. With \<^verbatim>\<open>num_tokens\<close> not above zero it has none of
  \<^verbatim>\<open>loss\<close>, \<^verbatim>\<open>ppl\<close> and \<^verbatim>\<open>token_acc\<close>. And \<^verbatim>\<open>report\<close> does return a dictionary
  whenever \<^verbatim>\<open>round_sigfigs\<close> returns and \<^verbatim>\<open>math.exp\<close> raises nothing but OverflowError.
\<close>

theorem report_loss_ppl:
  "(report F a = Inr m \<and> 0 < num_tokens (metrics a) \<longrightarrow>
      map_option Inr (map_of m ''loss'') =
        Some (round_sigfigs F
          (PFloat (float_div_int F (loss (metrics a)) (num_tokens (metrics a)))) 4)
      \<and> (math_exp F (float_div_int F (loss (metrics a)) (num_tokens (metrics a))) = Inr p \<longrightarrow>
           map_option Inr (map_of m ''ppl'') = Some (round_sigfigs F (PFloat p) 4))
      \<and> (math_exp F (float_div_int F (loss (metrics a)) (num_tokens (metrics a)))
             = Inl OverflowError \<longrightarrow>
           map_option Inr (map_of m ''ppl'') = Some (round_sigfigs F (PFloat (float_inf F)) 4)))
   \<and> (report F a = Inr m \<and> \<not> 0 < num_tokens (metrics a) \<longrightarrow>
        map_of m ''loss'' = None \<and> map_of m ''ppl'' = None \<and> map_of m ''token_acc'' = None)
   \<and> ((\<forall>v. \<exists>v'. round_sigfigs F v 4 = Inr v')
        \<and> (\<forall>x e. math_exp F x = Inl e \<longrightarrow> e = OverflowError) \<longrightarrow>
        (\<exists>m'. report F a = Inr m'))"
proof (intro conjI impI)
  assume h: "report F a = Inr m \<and> 0 < num_tokens (metrics a)"
  then show "map_option Inr (map_of m ''loss'') =
        Some (round_sigfigs F
          (PFloat (float_div_int F (loss (metrics a)) (num_tokens (metrics a)))) 4)"
    using report_pos(1) by blast
  {
    assume "math_exp F (float_div_int F (loss (metrics a)) (num_tokens (metrics a))) = Inr p"
    with h report_pos(2) [of F a m]
    show "map_option Inr (map_of m ''ppl'') = Some (round_sigfigs F (PFloat p) 4)" by simp
  }
  {
    assume "math_exp F (float_div_int F (loss (metrics a)) (num_tokens (metrics a)))
              = Inl OverflowError"
    with h report_pos(2) [of F a m]
    show "map_option Inr (map_of m ''ppl'') = Some (round_sigfigs F (PFloat (float_inf F)) 4)"
      by simp
  }
next
  assume "report F a = Inr m \<and> \<not> 0 < num_tokens (metrics a)"
  then have "map_of m ''loss'' = None \<and> map_of m ''ppl'' = None \<and> map_of m ''token_acc'' = None"
    using report_nonpos by blast
  then show "map_of m ''loss'' = None" and "map_of m ''ppl'' = None"
    and "map_of m ''token_acc'' = None" by simp_all
next
  assume "(\<forall>v. \<exists>v'. round_sigfigs F v 4 = Inr v')
        \<and> (\<forall>x e. math_exp F x = Inl e \<longrightarrow> e = OverflowError)"
  then show "\<exists>m'. report F a = Inr m'"
    using report_total [of F a] by blast
qed

theorem report_loss_ppl_witness:
  "report demo_float_ops
     ((demo_agent :: (rat, unit, unit) agent)
        \<lparr>metrics := \<lparr>loss = 7, num_tokens = 2, correct_tokens = 1, total_skipped_batches = 0\<rparr>\<rparr>)
     = Inr [(''token_acc'', PFloat (1 / 2)), (''loss'', PFloat (7 / 2)), (''ppl'', PFloat (9 / 2))]
   \<and> map_option Inr
        (map_of [(''token_acc'', PFloat (1 / 2)), (''loss'', PFloat (7 / 2)),
                 (''ppl'', PFloat (9 / 2 :: rat))] ''ppl'')
       = Some (round_sigfigs demo_float_ops (PFloat (9 / 2)) 4)
   \<and> report demo_float_ops
     ((demo_agent :: (rat, unit, unit) agent)
        \<lparr>metrics := \<lparr>loss = 2000, num_tokens = 2, correct_tokens = 0, total_skipped_batches = 0\<rparr>\<rparr>)
     = Inr [(''loss'', PFloat 1000), (''ppl'', PFloat (float_inf demo_float_ops))]
   \<and> report demo_float_ops
     ((demo_agent :: (rat, unit, unit) agent)
        \<lparr>metrics := \<lparr>loss = 7, num_tokens = 0, correct_tokens = 0, total_skipped_batches = 3\<rparr>\<rparr>)
     = Inr [(''total_skipped_batches'', PInt 3)]"
proof -
  let ?a = "(demo_agent :: (rat, unit, unit) agent)
        \<lparr>metrics := \<lparr>loss = 7, num_tokens = 2, correct_tokens = 1, total_skipped_batches = 0\<rparr>\<rparr>"
  let ?m = "[(''token_acc'', PFloat (1 / 2)), (''loss'', PFloat (7 / 2)),
             (''ppl'', PFloat (9 / 2 :: rat))]"
  have run: "report demo_float_ops ?a = Inr ?m"
    by (simp add: report_def report_entries_def demo_float_ops_def)
  have pos: "0 < num_tokens (metrics ?a)" by simp
  have ex: "math_exp demo_float_ops
              (float_div_int demo_float_ops (loss (metrics ?a)) (num_tokens (metrics ?a)))
            = Inr (9 / 2)"
    by (simp add: demo_float_ops_def)
  from report_loss_ppl [of demo_float_ops ?a ?m "9 / 2"] run pos ex
  have "map_option Inr (map_of ?m ''ppl'') = Some (round_sigfigs demo_float_ops (PFloat (9 / 2)) 4)"
    by blast
  moreover have "report demo_float_ops
     ((demo_agent :: (rat, unit, unit) agent)
        \<lparr>metrics := \<lparr>loss = 2000, num_tokens = 2, correct_tokens = 0, total_skipped_batches = 0\<rparr>\<rparr>)
     = Inr [(''loss'', PFloat 1000), (''ppl'', PFloat (float_inf demo_float_ops))]"
    by (simp add: report_def report_entries_def demo_float_ops_def)
  moreover have "report demo_float_ops
     ((demo_agent :: (rat, unit, unit) agent)
        \<lparr>metrics := \<lparr>loss = 7, num_tokens = 0, correct_tokens = 0, total_skipped_batches = 3\<rparr>\<rparr>)
     = Inr [(''total_skipped_batches'', PInt 3)]"
    by (simp add: report_def report_entries_def demo_float_ops_def)
  ultimately show ?thesis using run by blast
qed

subsection \<open>save\<close>

lemma save_ok:
  "model a = Some m \<Longrightarrow> longest_label T m = Some ll \<Longrightarrow> optimizer a = Some ob \<Longrightarrow>
   opt a ''optimizer'' = Some ot \<Longrightarrow>
   (if path_arg = PNone then dict_get (opt a) ''model_file'' PNone else path_arg) = PStr p \<Longrightarrow>
   p \<noteq> [] \<Longrightarrow>
   save T a path_arg fs =
     Inr (a, fs(p \<mapsto> TorchFile
                  \<lparr>st_model = Some (state_dict T m), st_longest_label = Some ll,
                   st_optimizer = Some (optim_state_dict T ob), st_optimizer_type = Some ot\<rparr>,
              p @ ''.opt'' \<mapsto> PickleFile (opt a)))"
  by (simp add: save_def dict_item_def)

lemma save_nothing:
  "\<not> truthy (if path_arg = PNone then dict_get (opt a) ''model_file'' PNone else path_arg)
     \<or> model a = None \<Longrightarrow> save T a path_arg fs = Inr (a, fs)"
  by (auto simp: save_def split: if_splits)

lemma save_agent: "save T a path_arg fs = Inr (a', fs') \<Longrightarrow> a' = a"
  by (auto simp: save_def Let_def split: if_splits option.splits sum.splits pyval.splits)

text \<open>
  C3, as the code has it. The path is the argument, or the \<^verbatim>\<open>model_file\<close> option when
  the argument is left out. For an agent that has a model (with a \<^verbatim>\<open>longest_label\<close>)
  and an optimizer, and whose options name the optimizer, \<^verbatim>\<open>save\<close> with a path that is
  a string and not empty writes, at that path, the model's state dict, its
  \<^verbatim>\<open>longest_label\<close>, the optimizer's state dict and the optimizer option, and the options
  at the path followed by \<^verbatim>\<open>.opt\<close>. With no path (none given, or an empty one) or with no
  model it writes nothing. It never changes the agent.
\<close>

theorem save_writes_checkpoint:
  "(model a = Some m \<and> longest_label T m = Some ll \<and> optimizer a = Some ob
      \<and> opt a ''optimizer'' = Some ot
      \<and> (if path_arg = PNone then dict_get (opt a) ''model_file'' PNone else path_arg) = PStr p
      \<and> p \<noteq> [] \<longrightarrow>
      save T a path_arg fs =
        Inr (a, fs(p \<mapsto> TorchFile
                     \<lparr>st_model = Some (state_dict T m), st_longest_label = Some ll,
                      st_optimizer = Some (optim_state_dict T ob), st_optimizer_type = Some ot\<rparr>,
                 p @ ''.opt'' \<mapsto> PickleFile (opt a))))
   \<and> (\<not> truthy (if path_arg = PNone then dict_get (opt a) ''model_file'' PNone else path_arg)
        \<or> model a = None \<longrightarrow> save T a path_arg fs = Inr (a, fs))
   \<and> (save T a path_arg fs = Inr (a', fs') \<longrightarrow> a' = a)"
  using save_ok [of a m T ll ob ot path_arg p fs] save_nothing [of path_arg a T fs]
    save_agent [of T a path_arg fs a' fs']
  by blast

theorem save_writes_checkpoint_witness:
  "(\<exists>fs. save demo_torch_state demo_trainer PNone Map.empty = Inr (demo_trainer, fs)
      \<and> fs ''/tmp/m'' =
          Some (TorchFile \<lparr>st_model = Some [1, 2], st_longest_label = Some 1,
                           st_optimizer = Some [3], st_optimizer_type = Some (PStr ''sgd'')\<rparr>)
      \<and> fs ''/tmp/m.opt'' = Some (PickleFile demo_train_opt))
   \<and> save demo_torch_state demo_trainer (PStr []) Map.empty = Inr (demo_trainer, Map.empty)"
proof -
  have m: "model demo_trainer = Some [1, 2]" and ob: "optimizer demo_trainer = Some [3]"
    and o_pt: "opt demo_trainer = demo_train_opt"
    by (simp_all add: demo_trainer_def)
  have ll: "longest_label demo_torch_state [1, 2] = Some 1"
    and sd: "state_dict demo_torch_state [1, 2] = [1, 2]"
    and osd: "optim_state_dict demo_torch_state [3] = [3]"
    by (simp_all add: demo_torch_state_def)
  have ot: "opt demo_trainer ''optimizer'' = Some (PStr ''sgd'')"
    by (simp add: o_pt demo_train_opt_def)
  have p: "(if (PNone :: rat pyval) = PNone
            then dict_get (opt demo_trainer) ''model_file'' PNone else PNone) = PStr ''/tmp/m''"
    by (simp add: o_pt demo_train_opt_def dict_get_def)
  have "save demo_torch_state demo_trainer PNone Map.empty =
          Inr (demo_trainer,
               [''/tmp/m'' \<mapsto> TorchFile
                  \<lparr>st_model = Some (state_dict demo_torch_state [1, 2]), st_longest_label = Some 1,
                   st_optimizer = Some (optim_state_dict demo_torch_state [3]),
                   st_optimizer_type = Some (PStr ''sgd'')\<rparr>,
                ''/tmp/m'' @ ''.opt'' \<mapsto> PickleFile (opt demo_trainer)])"
    using save_writes_checkpoint
      [where a = demo_trainer and T = demo_torch_state and path_arg = PNone
         and fs = Map.empty and m = "[1, 2]" and ll = 1 and ob = "[3]" and ot = "PStr ''sgd''"
         and p = "''/tmp/m''"]
      m ob ll ot p
    by blast
  then have first: "\<exists>fs. save demo_torch_state demo_trainer PNone Map.empty = Inr (demo_trainer, fs)
      \<and> fs ''/tmp/m'' =
          Some (TorchFile \<lparr>st_model = Some [1, 2], st_longest_label = Some 1,
                           st_optimizer = Some [3], st_optimizer_type = Some (PStr ''sgd'')\<rparr>)
      \<and> fs ''/tmp/m.opt'' = Some (PickleFile demo_train_opt)"
    by (simp add: sd osd o_pt)
  have "\<not> truthy (if (PStr [] :: rat pyval) = PNone
                    then dict_get (opt demo_trainer) ''model_file'' PNone else PStr [])"
    by simp
  then have "save demo_torch_state demo_trainer (PStr []) Map.empty = Inr (demo_trainer, Map.empty)"
    using save_writes_checkpoint
      [where a = demo_trainer and T = demo_torch_state and path_arg = "PStr []"
         and fs = Map.empty]
    by blast
  with first show ?thesis by blast
qed

text \<open>
  The claim as it is written (every agent that has a model) fails for an agent that has
  a model and no optimizer, as an agent built for evaluation is: with a path given,
  \<^verbatim>\<open>save\<close> raises AttributeError at \<^verbatim>\<open>self.optimizer\<close> and writes nothing.
\<close>

theorem save_without_optimizer_counterexample:
  "model (demo_trainer\<lparr>optimizer := None\<rparr>) = Some [1, 2]
   \<and> save demo_torch_state (demo_trainer\<lparr>optimizer := None\<rparr>) (PStr ''/tmp/m'') Map.empty
       = Inl (AttributeError ''optimizer'')"
  by (simp add: save_def demo_trainer_def demo_torch_state_def)

subsection \<open>Construction from saved states\<close>

lemma init_embeddings_states:
  "states_truthy st \<Longrightarrow> init_embeddings T a st m0 = Inr m1 \<Longrightarrow> m1 = m0"
  by (auto simp: init_embeddings_def split: if_splits sum.splits)

lemma init_model_restores:
  "states_truthy st \<Longrightarrow> init_model T D a st = Inr m \<Longrightarrow>
   \<exists>m0 sd m1. new_model T (dict_len D) (opt a) = Inr m0 \<and> st_model st = Some sd
      \<and> load_state_dict T m0 sd = Inr m1
      \<and> m = (if use_cuda a then model_cuda T m1 else m1)"
  by (auto simp: init_model_def split: sum.splits option.splits dest: init_embeddings_states)

lemma restore_differs:
  "st_optimizer st = Some osd \<Longrightarrow> st_optimizer_type st = Some t \<Longrightarrow> t \<noteq> ot \<Longrightarrow>
   restore_optimizer T a ot ob st = Inr ob"
  by (simp add: restore_optimizer_def)

lemma restore_ValueError:
  "st_optimizer st = Some osd \<Longrightarrow> st_optimizer_type st = Some ot \<Longrightarrow>
   optim_load_state_dict T ob osd = Inl ValueError \<Longrightarrow>
   restore_optimizer T a ot ob st = Inr (if use_cuda a then optim_cuda T ob else ob)"
  by (simp add: restore_optimizer_def)

lemma restore_loaded:
  "st_optimizer st = Some osd \<Longrightarrow> st_optimizer_type st = Some ot \<Longrightarrow>
   optim_load_state_dict T ob osd = Inr ob' \<Longrightarrow>
   restore_optimizer T a ot ob st = Inr (if use_cuda a then optim_cuda T ob' else ob')"
  by (simp add: restore_optimizer_def)

lemma restore_only_if:
  "restore_optimizer T a ot ob st = Inr r \<Longrightarrow> st_optimizer_type st \<noteq> Some ot \<Longrightarrow> r = ob"
  by (auto simp: restore_optimizer_def split: option.splits if_splits)

lemma init_optimizer_train:
  "init_optimizer T a m st = Inr a1 \<Longrightarrow> training a \<Longrightarrow>
   \<exists>oname kwargs m1 ob r. opt a ''optimizer'' = Some (PStr oname) \<and> fix_if_fixed T a m = Inr m1
      \<and> new_optimizer T oname kwargs m1 = Inr ob
      \<and> restore_optimizer T a (PStr oname) ob st = Inr r
      \<and> model a1 = Some m1 \<and> optimizer a1 = Some r"
  unfolding init_optimizer_def training_def
  by (auto simp: dict_item_def split: sum.splits pyval.splits if_splits option.splits) blast

lemma init_optimizer_eval:
  "init_optimizer T a m st = Inr a1 \<Longrightarrow> \<not> training a \<Longrightarrow> a1 = a\<lparr>model := Some m\<rparr>"
  unfolding init_optimizer_def training_def
  by (auto split: sum.splits pyval.splits if_splits)

lemma reset_model: "model (reset a) = model a" "optimizer (reset a) = optimizer a"
  by (simp_all add: reset_def reset_metrics_def)

lemma init_agent_train:
  assumes "init_agent T D a (Fresh st) = Inr a'" and "training a"
  shows "\<exists>m oname kwargs m1 ob r. init_model T D a st = Inr m
      \<and> opt a ''optimizer'' = Some (PStr oname) \<and> fix_if_fixed T a m = Inr m1
      \<and> new_optimizer T oname kwargs m1 = Inr ob
      \<and> restore_optimizer T a (PStr oname) ob st = Inr r
      \<and> model a' = Some m1 \<and> optimizer a' = Some r"
proof -
  from assms(1) obtain m a1 where m: "init_model T D a st = Inr m"
    and a1: "init_optimizer T a m st = Inr a1" and a': "a' = reset a1"
    by (auto simp: init_agent_def split: sum.splits)
  from init_optimizer_train [OF a1 assms(2)] m show ?thesis
    by (simp add: a' reset_model)
qed

lemma init_agent_eval:
  assumes "init_agent T D a (Fresh st) = Inr a'" and "\<not> training a"
  shows "\<exists>m. init_model T D a st = Inr m \<and> model a' = Some m \<and> optimizer a' = optimizer a"
proof -
  from assms(1) obtain m a1 where m: "init_model T D a st = Inr m"
    and a1: "init_optimizer T a m st = Inr a1" and a': "a' = reset a1"
    by (auto simp: init_agent_def split: sum.splits)
  from init_optimizer_eval [OF a1 assms(2)] m show ?thesis
    by (simp add: a' reset_model)
qed

text \<open>
  C4. An agent of its own that is constructed with states (a dictionary that is not
  empty) gets, as its model, the new model after \<^verbatim>\<open>load_state_dict(states['model'])\<close>
  (moved to the GPU when CUDA is used). Its new optimizer is left as it was created when
  the saved \<^verbatim>\<open>optimizer_type\<close> differs from the \<^verbatim>\<open>optimizer\<close> option, and also (but for
  the move to the GPU) when loading the saved optimizer state raises ValueError; it gets
  the saved state when the types agree and the loading succeeds; and an optimizer that
  is not as it was created has a saved type equal to the option. Whatever happens to the
  optimizer, the model of the constructed agent is the restored one (with the embeddings
  fixed when the options ask for it).
\<close>

theorem init_restores_states:
  "(states_truthy st \<and> init_model T D a st = Inr m \<longrightarrow>
      (\<exists>m0 sd m1. new_model T (dict_len D) (opt a) = Inr m0 \<and> st_model st = Some sd
         \<and> load_state_dict T m0 sd = Inr m1
         \<and> m = (if use_cuda a then model_cuda T m1 else m1)))
   \<and> (st_optimizer st = Some osd \<and> st_optimizer_type st = Some t \<and> t \<noteq> ot \<longrightarrow>
        restore_optimizer T a ot ob st = Inr ob)
   \<and> (st_optimizer st = Some osd \<and> st_optimizer_type st = Some ot
        \<and> optim_load_state_dict T ob osd = Inl ValueError \<longrightarrow>
        restore_optimizer T a ot ob st = Inr (if use_cuda a then optim_cuda T ob else ob))
   \<and> (st_optimizer st = Some osd \<and> st_optimizer_type st = Some ot
        \<and> optim_load_state_dict T ob osd = Inr ob' \<longrightarrow>
        restore_optimizer T a ot ob st = Inr (if use_cuda a then optim_cuda T ob' else ob'))
   \<and> (restore_optimizer T a ot ob st = Inr r \<and> st_optimizer_type st \<noteq> Some ot \<longrightarrow> r = ob)
   \<and> (init_agent T D a (Fresh st) = Inr a' \<and> training a \<longrightarrow>
        (\<exists>mi oname kwargs m1 ob0 r0. init_model T D a st = Inr mi
           \<and> opt a ''optimizer'' = Some (PStr oname) \<and> fix_if_fixed T a mi = Inr m1
           \<and> new_optimizer T oname kwargs m1 = Inr ob0
           \<and> restore_optimizer T a (PStr oname) ob0 st = Inr r0
           \<and> model a' = Some m1 \<and> optimizer a' = Some r0))
   \<and> (init_agent T D a (Fresh st) = Inr a' \<and> \<not> training a \<longrightarrow>
        (\<exists>mi. init_model T D a st = Inr mi \<and> model a' = Some mi
           \<and> optimizer a' = optimizer a))"
  using init_model_restores [of st T D a m] restore_differs [of st osd t ot T a ob]
    restore_ValueError [of st osd ot T ob a] restore_loaded [of st osd ot T ob ob' a]
    restore_only_if [of T a ot ob st r] init_agent_train [of T D a st a']
    init_agent_eval [of T D a st a']
  by blast

lemmas demo_init_simps =
  init_agent_def init_model_def init_embeddings_def init_optimizer_def optimizer_kwargs_def
  fix_if_fixed_def restore_optimizer_def demo_torch_state_def demo_dict_def demo_agent_def
  demo_train_opt_def demo_states_def dict_get_def dict_item_def states_truthy_def OPTIM_OPTS_def
  suffix_to_prefix reset_def reset_metrics_def

theorem init_restores_states_witness:
  "(\<exists>a'. init_agent demo_torch_state demo_dict (demo_agent\<lparr>opt := demo_train_opt\<rparr>)
          (Fresh (demo_states ''sgd'' [7])) = Inr a'
      \<and> model a' = Some [1, 2, 3, 4, 5, 6] \<and> optimizer a' = Some [7])
   \<and> (\<exists>a'. init_agent demo_torch_state demo_dict (demo_agent\<lparr>opt := demo_train_opt\<rparr>)
          (Fresh (demo_states ''adam'' [7])) = Inr a'
      \<and> model a' = Some [1, 2, 3, 4, 5, 6] \<and> optimizer a' = Some [])
   \<and> (\<exists>a'. init_agent demo_torch_state demo_dict (demo_agent\<lparr>opt := demo_train_opt\<rparr>)
          (Fresh (demo_states ''sgd'' [7, 8])) = Inr a'
      \<and> model a' = Some [1, 2, 3, 4, 5, 6] \<and> optimizer a' = Some [])
   \<and> restore_optimizer demo_torch_state (demo_agent\<lparr>opt := demo_train_opt\<rparr>) (PStr ''sgd'') []
        (demo_states ''adam'' [7]) = Inr []
   \<and> restore_optimizer demo_torch_state (demo_agent\<lparr>opt := demo_train_opt\<rparr>) (PStr ''sgd'') []
        (demo_states ''sgd'' [7, 8]) = Inr []
   \<and> restore_optimizer demo_torch_state (demo_agent\<lparr>opt := demo_train_opt\<rparr>) (PStr ''sgd'') []
        (demo_states ''sgd'' [7]) = Inr [7]"
proof -
  let ?a = "(demo_agent\<lparr>opt := demo_train_opt\<rparr>) :: (rat, int list, int list) agent"
  have cpu: "\<not> use_cuda ?a" by (simp add: demo_agent_def)
  have differs: "restore_optimizer demo_torch_state ?a (PStr ''sgd'') []
        (demo_states ''adam'' [7]) = Inr []"
    using init_restores_states
      [where T = demo_torch_state and a = ?a and st = "demo_states ''adam'' [7]"
         and osd = "[7]" and t = "PStr ''adam''" and ot = "PStr ''sgd''" and ob = "[]"]
    by (simp add: demo_states_def)
  have "optim_load_state_dict demo_torch_state [] [7, 8] = Inl ValueError"
    by (simp add: demo_torch_state_def)
  then have unfit: "restore_optimizer demo_torch_state ?a (PStr ''sgd'') []
        (demo_states ''sgd'' [7, 8]) = Inr []"
    using init_restores_states
      [where T = demo_torch_state and a = ?a and st = "demo_states ''sgd'' [7, 8]"
         and osd = "[7, 8]" and ot = "PStr ''sgd''" and ob = "[]"] cpu
    by (simp add: demo_states_def)
  have "optim_load_state_dict demo_torch_state [] [7] = Inr [7]"
    by (simp add: demo_torch_state_def)
  then have fits: "restore_optimizer demo_torch_state ?a (PStr ''sgd'') []
        (demo_states ''sgd'' [7]) = Inr [7]"
    using init_restores_states
      [where T = demo_torch_state and a = ?a and st = "demo_states ''sgd'' [7]"
         and osd = "[7]" and ot = "PStr ''sgd''" and ob = "[]" and ob' = "[7]"] cpu
    by (simp add: demo_states_def)
  have "\<exists>a'. init_agent demo_torch_state demo_dict ?a (Fresh (demo_states ''sgd'' [7])) = Inr a'
      \<and> model a' = Some [1, 2, 3, 4, 5, 6] \<and> optimizer a' = Some [7]"
    by (simp add: demo_init_simps)
  moreover have "\<exists>a'. init_agent demo_torch_state demo_dict ?a
          (Fresh (demo_states ''adam'' [7])) = Inr a'
      \<and> model a' = Some [1, 2, 3, 4, 5, 6] \<and> optimizer a' = Some []"
    by (simp add: demo_init_simps)
  moreover have "\<exists>a'. init_agent demo_torch_state demo_dict ?a
          (Fresh (demo_states ''sgd'' [7, 8])) = Inr a'
      \<and> model a' = Some [1, 2, 3, 4, 5, 6] \<and> optimizer a' = Some []"
    by (simp add: demo_init_simps)
  ultimately show ?thesis using differs unfit fits by blast
qed

subsection \<open>predict\<close>

lemma eval_branch_no_labels: "eval_branch T a m xs None cands \<noteq> Inr r"
  by (simp add: eval_branch_def split: sum.splits)

lemma predict_eval_none: "predict T a xs None cands vc False \<noteq> Inr r"
  by (simp add: predict_def eval_branch_no_labels split: option.splits)

lemma predict_eval_NameError:
  "model a = Some m \<Longrightarrow> evaluate T (model_eval T m) xs = Inr sc \<Longrightarrow>
   predict T a xs None cands vc False = Inl (NameError ''predicted'')"
  by (simp add: predict_def eval_branch_def)

text \<open>
  C2, on the code. A call of \<^verbatim>\<open>predict\<close> for evaluation without labels never returns:
  when the model's \<^verbatim>\<open>evaluate\<close> returns, the next statement reads the unbound name
  \<^verbatim>\<open>predicted\<close> and raises NameError; otherwise the error of \<^verbatim>\<open>evaluate\<close> (or of the
  missing model) is raised.
\<close>

theorem predict_without_labels_raises:
  "predict T a xs None cands vc False \<noteq> Inr r
   \<and> (model a = Some m \<and> evaluate T (model_eval T m) xs = Inr sc \<longrightarrow>
        predict T a xs None cands vc False = Inl (NameError ''predicted''))"
  using predict_eval_none [of T a xs cands vc r] predict_eval_NameError [of a m T xs sc cands vc]
  by blast

theorem predict_without_labels_raises_witness:
  "predict demo_torch_step demo_trainer [[3, 4]] None None None False
     = Inl (NameError ''predicted'')"
  using predict_without_labels_raises
    [where T = demo_torch_step and a = demo_trainer and xs = "[[3, 4]]" and cands = None
       and vc = None and m = "[1, 2]" and sc = "()"]
  by (simp add: demo_trainer_def demo_torch_step_def)


lemma train_block_forward:
  "forward T m xs ys (cands \<noteq> None) = Inl e \<Longrightarrow> train_block T a m xs ys cands = (a, None, Some e)"
  by (simp add: train_block_def)











subsection \<open>batch\_act\<close>

lemma LongTensor_rect: "LongTensor rows = Inr t \<Longrightarrow> t = rows \<and> rectangular t"
  by (auto simp: LongTensor_def split: if_splits)

lemma vectorize_Some:
  assumes "vectorize U a obs = Inr (Some v)"
  shows "rectangular (v_xs v) \<and> (\<forall>ys. v_ys v = Some ys \<longrightarrow> rectangular ys)
     \<and> (\<exists>pd. pad_text U obs (Some (END_IDX a)) (NULL_IDX a) (Some True) (truncate_len a) = Inr pd
           \<and> pad_xs pd = Some (v_xs v))"
  using assms
  by (auto simp: vectorize_def Let_def split: sum.splits option.splits prod.splits if_splits
      dest!: LongTensor_rect)

lemma vectorize_None:
  "pad_text U obs (Some (END_IDX a)) (NULL_IDX a) (Some True) (truncate_len a) = Inr pd \<Longrightarrow>
   pad_xs pd = None \<Longrightarrow> vectorize U a obs = Inr None"
  by (simp add: vectorize_def)

lemma py_setitem_frame:
  "py_getitem xs i = Inr x \<Longrightarrow> py_setitem xs i (f x) = Inr ys \<Longrightarrow>
   length ys = length xs \<and> (\<forall>k < length xs. ys ! k = xs ! k \<or> ys ! k = f (xs ! k))"
  by (auto simp: py_setitem_def py_getitem_def py_index_def nth_list_update
      split: option.splits if_splits)

lemma keeps_repliesD:
  "keeps_replies U \<Longrightarrow> map_predictions U p vi br obs e rf l ans ys = Inr (br', ans') \<Longrightarrow>
   length br' = length br \<and> (\<forall>k < length br. (br' ! k) ''id'' = (br ! k) ''id'')"
  unfolding keeps_replies_def by blast

lemma set_text_candidates_frame:
  "set_text_candidates cp vcs i br = Inr br' \<Longrightarrow>
   length br' = length br \<and> (\<forall>k < length br. (br' ! k) ''id'' = (br ! k) ''id'')"
proof (induction cp vcs i br rule: set_text_candidates.induct)
  case (1 cand_preds i batch_reply)
  then show ?case by simp
next
  case (2 cand_preds b_idx curr_cands rest i batch_reply)
  from "2.prems" obtain order reply texts br1 where
    o: "py_getitem cand_preds (int i) = Inr order"
    and r: "py_getitem batch_reply b_idx = Inr reply"
    and t: "candidate_texts curr_cands order = Inr texts"
    and s: "py_setitem batch_reply b_idx (reply(''text_candidates'' \<mapsto> PList texts)) = Inr br1"
    and rest: "set_text_candidates cand_preds rest (Suc i) br1 = Inr br'"
    by (auto split: sum.splits)
  from "2.IH" [OF o r t s rest]
  have ih: "length br' = length br1" "\<forall>k < length br1. (br' ! k) ''id'' = (br1 ! k) ''id''"
    by simp_all
  from py_setitem_frame [OF r, of "\<lambda>r. r(''text_candidates'' \<mapsto> PList texts)" br1] s
  have fr: "length br1 = length batch_reply"
    "\<forall>k < length batch_reply. (br1 ! k) ''id'' = (batch_reply ! k) ''id''"
    by auto
  from ih fr show ?case by simp
qed

lemma init_cuda_buffer_id: "init_cuda_buffer T a n = Inr a1 \<Longrightarrow> agent_id a1 = agent_id a"
  by (auto simp: init_cuda_buffer_def cuda_warm_up_def Let_def
      split: if_splits sum.splits option.splits prod.splits error.splits)

lemma init_cuda_buffer_cpu: "\<not> use_cuda a \<Longrightarrow> init_cuda_buffer T a n = Inr a"
  by (simp add: init_cuda_buffer_def)

lemma batch_act_replies:
  assumes keep: "keeps_replies U" and run: "batch_act T U a obs = Inr (replies, a')"
  shows "length replies = length obs
     \<and> (\<forall>k < length obs. (replies ! k) ''id'' = Some (PStr (agent_id a)))"
proof -
  from run obtain a1 where a1: "init_cuda_buffer T a (length obs) = Inr a1"
    by (auto simp: batch_act_def Let_def split: sum.splits)
  let ?br = "replicate (length obs) [''id'' \<mapsto> PStr (agent_id a1)] :: (string \<rightharpoonup> 'a pyval) list"
  have id: "agent_id a1 = agent_id a" using init_cuda_buffer_id [OF a1] .
  have base: "length ?br = length obs" "\<forall>k < length obs. (?br ! k) ''id'' = Some (PStr (agent_id a))"
    by (simp_all add: id)
  show ?thesis
  proof (cases "vectorize U a1 obs")
    case (Inl e)
    with run a1 show ?thesis by (simp add: batch_act_def Let_def)
  next
    case (Inr vo)
    show ?thesis
    proof (cases vo)
      case None
      with run a1 Inr have "replies = ?br" by (auto simp: batch_act_def Let_def)
      with base show ?thesis by simp
    next
      case (Some v)
      from run a1 Inr Some obtain predictions cand_preds a2 br1 ans1 where
        mp: "(case predictions of
                None \<Rightarrow> Inr (?br, answers a2)
              | Some p \<Rightarrow>
                  map_predictions U p (v_valid_inds v) ?br obs (END_IDX a2)
                    (if v_is_training v then PInt 0 else PFloat (report_freq a2))
                    (v_labels v) (answers a2) (v_ys v)) = Inr (br1, ans1)"
        and fin: "(case cand_preds of
                     None \<Rightarrow> Inr (br1, a2\<lparr>answers := ans1\<rparr>)
                   | Some cp \<Rightarrow>
                       (case set_text_candidates cp
                               (case v_valid_cands v of
                                  None \<Rightarrow>
                                    map (\<lambda>i. (i, map_option (map PStr) (v_labels v))) (v_valid_inds v)
                                | Some vcs \<Rightarrow> map (\<lambda>(i, b_idx, cs). (b_idx, Some cs)) vcs)
                               0 br1 of
                          Inl e \<Rightarrow> Inl e
                        | Inr br2 \<Rightarrow> Inr (br2, a2\<lparr>answers := ans1\<rparr>))) = Inr (replies, a')"
        by (auto simp: batch_act_def Let_def split: sum.splits prod.splits)
      have br1: "length br1 = length obs"
        "\<forall>k < length obs. (br1 ! k) ''id'' = Some (PStr (agent_id a))"
      proof -
        have "length br1 = length ?br \<and> (\<forall>k < length ?br. (br1 ! k) ''id'' = (?br ! k) ''id'')"
        proof (cases predictions)
          case None with mp show ?thesis by auto
        next
          case (Some p)
          with mp have "map_predictions U p (v_valid_inds v) ?br obs (END_IDX a2)
                    (if v_is_training v then PInt 0 else PFloat (report_freq a2))
                    (v_labels v) (answers a2) (v_ys v) = Inr (br1, ans1)" by simp
          from keeps_repliesD [OF keep this] show ?thesis .
        qed
        with base show "length br1 = length obs"
          and "\<forall>k < length obs. (br1 ! k) ''id'' = Some (PStr (agent_id a))" by simp_all
      qed
      show ?thesis
      proof (cases cand_preds)
        case None
        with fin have "replies = br1" by simp
        with br1 show ?thesis by simp
      next
        case (Some cp)
        with fin obtain vcs where "set_text_candidates cp vcs 0 br1 = Inr replies"
          by (auto split: sum.splits)
        from set_text_candidates_frame [OF this] br1 show ?thesis by simp
      qed
    qed
  qed
qed

lemma batch_act_no_valid:
  "init_cuda_buffer T a (length obs) = Inr a1 \<Longrightarrow> vectorize U a1 obs = Inr None \<Longrightarrow>
   batch_act T U a obs = Inr (replicate (length obs) [''id'' \<mapsto> PStr (agent_id a)], a1)"
  by (simp add: batch_act_def Let_def init_cuda_buffer_id)

lemma batch_act_no_valid_cpu:
  assumes "\<not> use_cuda a"
    and "pad_text U obs (Some (END_IDX a)) (NULL_IDX a) (Some True) (truncate_len a) = Inr pd"
    and "pad_xs pd = None"
  shows "batch_act T U a obs = Inr (replicate (length obs) [''id'' \<mapsto> PStr (agent_id a)], a)"
  using batch_act_no_valid [OF init_cuda_buffer_cpu [OF assms(1)] vectorize_None [OF assms(2,3)]] .

lemma update_text_id:
  "k < length br \<Longrightarrow> (br[j := (br ! j)(''text'' \<mapsto> v)] ! k) ''id'' = (br ! k) ''id''"
  by (cases "j = k") simp_all

lemma demo_write_texts_frame:
  "length (demo_write_texts p vi br) = length br
   \<and> (\<forall>k < length br. (demo_write_texts p vi br ! k) ''id'' = (br ! k) ''id'')"
  by (induction p vi br rule: demo_write_texts.induct) (simp_all add: update_text_id)

lemma demo_keeps_replies: "keeps_replies demo_padding_utils"
  using demo_write_texts_frame
  by (auto simp: keeps_replies_def demo_padding_utils_def)

lemmas demo_act_simps =
  batch_act_def init_cuda_buffer_def vectorize_def predict_def eval_branch_def train_block_def
  update_params_def demo_padding_utils_def demo_pad_text_def demo_label_def pad_rows_def
  demo_torch_step_def demo_trainer_def demo_agent_def demo_train_opt_def
  demo_metrics_def demo_dict_def dict_item_def dict_get_def count_ne_def LongTensor_def
  rectangular_def Let_def

lemma batch_act_eval_no_labels:
  assumes "init_cuda_buffer T a (length obs) = Inr a1" and "vectorize U a1 obs = Inr (Some v)"
    and "v_ys v = None" and "\<not> v_is_training v"
  shows "batch_act T U a obs \<noteq> Inr r"
proof -
  have "predict T a1 (v_xs v) None (v_cands v) (map_option (map fst) (v_valid_cands v)) False
          \<noteq> Inr q" for q
    by (rule predict_eval_none)
  then obtain e where
    "predict T a1 (v_xs v) None (v_cands v) (map_option (map fst) (v_valid_cands v)) False = Inl e"
    by (cases "predict T a1 (v_xs v) None (v_cands v) (map_option (map fst) (v_valid_cands v)) False")
      auto
  with assms show ?thesis by (simp add: batch_act_def Let_def)
qed

lemma batch_act_eval_NameError:
  assumes "init_cuda_buffer T a (length obs) = Inr a1" and "vectorize U a1 obs = Inr (Some v)"
    and "v_ys v = None" and "\<not> v_is_training v"
    and "model a1 = Some m" and "evaluate T (model_eval T m) (v_xs v) = Inr sc"
  shows "batch_act T U a obs = Inl (NameError ''predicted'')"
  using assms predict_eval_NameError [OF assms(5,6)]
  by (simp add: batch_act_def Let_def)

text \<open>
  C5, on the code. For a batch that holds a valid observation and no labels (the batch
  of an agent that is talked to: \<^verbatim>\<open>vectorize\<close> returns the inputs, no \<^verbatim>\<open>ys\<close>, and
  \<^verbatim>\<open>is_training\<close> false), \<^verbatim>\<open>batch_act\<close> returns no list of replies: it calls
  \<^verbatim>\<open>predict\<close> for evaluation without labels, which raises NameError at the unbound name
  \<^verbatim>\<open>predicted\<close> of line 558 once the model's \<^verbatim>\<open>evaluate\<close> returns (the defect of C2).
\<close>

theorem batch_act_without_labels_raises:
  "init_cuda_buffer T a (length obs) = Inr a1 \<and> vectorize U a1 obs = Inr (Some v)
     \<and> v_ys v = None \<and> \<not> v_is_training v \<longrightarrow>
   batch_act T U a obs \<noteq> Inr r
   \<and> (model a1 = Some m \<and> evaluate T (model_eval T m) (v_xs v) = Inr sc \<longrightarrow>
        batch_act T U a obs = Inl (NameError ''predicted''))"
  using batch_act_eval_no_labels [of T a obs a1 U v r]
    batch_act_eval_NameError [of T a obs a1 U v m sc]
  by blast

theorem batch_act_without_labels_raises_witness:
  "vectorize demo_padding_utils demo_trainer [[''text'' \<mapsto> PStr ''ab'']]
     = Inr (Some \<lparr>v_xs = [[3, 4]], v_ys = None, v_labels = None, v_valid_inds = [0],
                  v_cands = None, v_valid_cands = None, v_is_training = False\<rparr>)
   \<and> batch_act demo_torch_step demo_padding_utils demo_trainer [[''text'' \<mapsto> PStr ''ab'']]
       = Inl (NameError ''predicted'')"
proof -
  let ?obs = "[[''text'' \<mapsto> PStr ''ab'']] :: (string \<rightharpoonup> rat pyval) list"
  let ?v = "\<lparr>v_xs = [[3, 4]], v_ys = None, v_labels = None, v_valid_inds = [0],
             v_cands = None, v_valid_cands = None, v_is_training = False\<rparr> :: rat vectorized"
  have buf: "init_cuda_buffer demo_torch_step demo_trainer (length ?obs) = Inr demo_trainer"
    by (simp add: init_cuda_buffer_def demo_trainer_def demo_agent_def)
  have vec: "vectorize demo_padding_utils demo_trainer ?obs = Inr (Some ?v)"
    by (simp add: demo_act_simps)
  have m: "model demo_trainer = Some [1, 2]" by (simp add: demo_trainer_def)
  have ev: "evaluate demo_torch_step (model_eval demo_torch_step [1, 2]) (v_xs ?v) = Inr ()"
    by (simp add: demo_torch_step_def)
  from batch_act_without_labels_raises
    [where T = demo_torch_step and U = demo_padding_utils and a = demo_trainer and obs = ?obs
       and ?a1.0 = demo_trainer and v = ?v and m = "[1, 2]" and sc = "()"]
    buf vec m ev
  have "batch_act demo_torch_step demo_padding_utils demo_trainer ?obs
          = Inl (NameError ''predicted'')"
    by simp
  with vec show ?thesis by simp
qed

end
